theory Spec2Isabelle
  imports Complex_Main
begin

section \<open>The template sender form of \<^verbatim>\<open>src/pages/Index.tsx\<close>\<close>

text \<open>
  The page is one React component, \<^verbatim>\<open>Index\<close>: a form of three fields checked by a
  zod schema, and a submit handler \<^verbatim>\<open>onSubmit\<close> that builds a payload, posts it to a
  webhook and records the outcome in four pieces of component state. The development
  follows the file from top to bottom: the strings and the regular expression of the
  schema, the schema, the form fields and their change handlers, the JavaScript values
  the handler touches, the handler itself as a sequence of effects, and then the
  properties.

  Strings are \<^typ>\<open>string\<close>. The code looks at strings in three ways only: whether a
  string is empty, whether a character is one of the ten ASCII digits, and whether it
  begins with \<^verbatim>\<open>55\<close>; a character outside ASCII is a non-digit whatever its encoding, so
  the choice of code unit does not matter here.
\<close>

subsection \<open>Digits and the two regular expressions\<close>

definition is_digit :: "char \<Rightarrow> bool" where
  "is_digit c = (c \<in> set ''0123456789'')"

text \<open>
  The file has two regular expressions: \<^verbatim>\<open>/\D/g\<close> (line 220) and
  \<^verbatim>\<open>/^55\d{10,11}$/\<close> (line 33). Both are built from single-character atoms, the
  second with a bounded repetition, so a pattern is a list of pieces \<^verbatim>\<open>atom{lo,hi}\<close>.
\<close>

datatype atom = Lit char | Digit | NonDigit

fun atom_matches :: "atom \<Rightarrow> char \<Rightarrow> bool" where
  "atom_matches (Lit a) c = (c = a)"
| "atom_matches Digit c = is_digit c"
| "atom_matches NonDigit c = (\<not> is_digit c)"

datatype piece = Piece atom nat nat

text \<open>
  \<open>matches_from ps s\<close>: the pieces \<open>ps\<close> match the whole of \<open>s\<close>. A piece takes \<open>k\<close>
  characters for some \<open>lo \<le> k \<le> hi\<close>, the longest first as a greedy quantifier does, and
  the empty pattern matches at the end of the input only (the \<^verbatim>\<open>$\<close> of a pattern
  without the \<^verbatim>\<open>m\<close> flag).
\<close>

fun matches_from :: "piece list \<Rightarrow> string \<Rightarrow> bool" where
  "matches_from [] s = (s = [])"
| "matches_from (Piece a lo hi # ps) s =
     list_ex (\<lambda>k. k \<le> length s \<and> list_all (atom_matches a) (take k s) \<and> matches_from ps (drop k s))
       (rev [lo..<Suc hi])"

text \<open>\<^verbatim>\<open>re.test(s)\<close> for a pattern anchored by \<^verbatim>\<open>^\<close> and \<^verbatim>\<open>$\<close>.\<close>

definition regex_test :: "piece list \<Rightarrow> string \<Rightarrow> bool" where
  "regex_test re s = matches_from re s"

text \<open>\<^verbatim>\<open>/^55\d{10,11}$/\<close>\<close>

definition recipientPhone_regex :: "piece list" where
  "recipientPhone_regex = [Piece (Lit CHR ''5'') 1 1, Piece (Lit CHR ''5'') 1 1, Piece Digit 10 11]"

text \<open>
  \<^verbatim>\<open>s.replace(/a/g, repl)\<close> for a one-character atom \<open>a\<close>: every character the atom
  matches is replaced, the others are kept.
\<close>

definition replace_global :: "atom \<Rightarrow> string \<Rightarrow> string \<Rightarrow> string" where
  "replace_global a repl s = concat (map (\<lambda>c. if atom_matches a c then repl else [c]) s)"

subsection \<open>The validation schema (lines 27 to 36)\<close>

record FormValues =
  template :: string
  phoneNumberId :: string
  recipientPhone :: string

datatype field = Template | PhoneNumberId | RecipientPhone

text \<open>
  The four messages of the schema, in the order of the file:
  \<^verbatim>\<open>Por favor, selecione um template\<close>, \<^verbatim>\<open>Por favor, selecione um ID de telefone\<close>,
  the request to enter the recipient's number (line 32) and the invalid-format message
  (line 34).
\<close>

datatype message = SelecioneTemplate | SelecioneIdTelefone | InsiraDestinatario | FormatoInvalido

text \<open>
  \<^verbatim>\<open>z.string().min(n, {message})\<close> and \<^verbatim>\<open>.regex(re, {message})\<close>: each check adds its
  issue when it fails, and a later check runs whether or not an earlier one failed.
\<close>

definition z_min :: "nat \<Rightarrow> message \<Rightarrow> string \<Rightarrow> message list" where
  "z_min n msg s = (if length s < n then [msg] else [])"

definition z_regex :: "piece list \<Rightarrow> message \<Rightarrow> string \<Rightarrow> message list" where
  "z_regex re msg s = (if regex_test re s then [] else [msg])"

definition formSchema_issues :: "FormValues \<Rightarrow> (field \<times> message) list" where
  "formSchema_issues v =
     map (Pair Template) (z_min 1 SelecioneTemplate (template v)) @
     map (Pair PhoneNumberId) (z_min 1 SelecioneIdTelefone (phoneNumberId v)) @
     map (Pair RecipientPhone)
       (z_min 1 InsiraDestinatario (recipientPhone v) @
        z_regex recipientPhone_regex FormatoInvalido (recipientPhone v))"

text \<open>\<^verbatim>\<open>formSchema.safeParse(v)\<close>: the issues, or the values when there is none.\<close>

definition formSchema :: "FormValues \<Rightarrow> (field \<times> message) list + FormValues" where
  "formSchema v = (if formSchema_issues v = [] then Inr v else Inl (formSchema_issues v))"

text \<open>The issues of one field: what the form shows under it.\<close>

definition field_issues :: "field \<Rightarrow> FormValues \<Rightarrow> message list" where
  "field_issues f v = map snd (filter (\<lambda>i. fst i = f) (formSchema_issues v))"

subsection \<open>Configuration and the form's fields (lines 52 to 71, 149 to 228)\<close>

record select_option =
  "value" :: string
  label :: string

definition WEBHOOK_URL :: string where
  "WEBHOOK_URL = ''https://example-n8n-webhook-url.com/''"

definition TEMPLATES :: "select_option list" where
  "TEMPLATES =
     [\<lparr>value = ''hello_world'', label = ''hello_world''\<rparr>,
      \<lparr>value = ''order_update'', label = ''order_update''\<rparr>,
      \<lparr>value = ''appointment_reminder'', label = ''appointment_reminder''\<rparr>]"

definition PHONE_IDS :: "select_option list" where
  "PHONE_IDS =
     [\<lparr>value = ''785310631336841'', label = ''785310631336841''\<rparr>,
      \<lparr>value = ''123456789012345'', label = ''123456789012345''\<rparr>]"

definition defaultValues :: FormValues where
  "defaultValues = \<lparr>template = [], phoneNumberId = [], recipientPhone = []\<rparr>"

text \<open>
  What the user can do to the fields. A \<^verbatim>\<open>Select\<close> renders one item per entry of its
  list and reports the value of the item picked, so picking is by position in the list;
  the text input reports the text it holds after the edit (\<^verbatim>\<open>e.target.value\<close>).
\<close>

datatype form_event = PickTemplate nat | PickPhoneId nat | EditRecipient string

text \<open>The \<^verbatim>\<open>onChange\<close> of the recipient input (lines 218 to 222).\<close>

definition recipient_onChange :: "string \<Rightarrow> string" where
  "recipient_onChange target_value = replace_global NonDigit [] target_value"

fun form_step :: "FormValues \<Rightarrow> form_event \<Rightarrow> FormValues" where
  "form_step v (PickTemplate i) =
     (if i < length TEMPLATES then v\<lparr>template := value (TEMPLATES ! i)\<rparr> else v)"
| "form_step v (PickPhoneId i) =
     (if i < length PHONE_IDS then v\<lparr>phoneNumberId := value (PHONE_IDS ! i)\<rparr> else v)"
| "form_step v (EditRecipient s) = v\<lparr>recipientPhone := recipient_onChange s\<rparr>"

text \<open>The field values after a sequence of edits of the freshly mounted form.\<close>

definition form_after :: "form_event list \<Rightarrow> FormValues" where
  "form_after evs = foldl form_step defaultValues evs"

subsection \<open>JavaScript values\<close>

text \<open>
  The values that \<^verbatim>\<open>response.json()\<close> can produce and that the payload is made of. An
  object is the list of its properties in insertion order, each key once, and reading a
  property takes the binding of the key. A number is the double's exact value (a
  literal that overflows to an infinity is not represented); the only thing the code
  asks of a number is whether it is zero.
\<close>

datatype json =
  JNull | JBool bool | JNum rat | JStr string | JArr "json list" | JObj "(string \<times> json) list"

text \<open>Truthiness, as \<^verbatim>\<open>||\<close> tests it; \<open>None\<close> below stands for \<^verbatim>\<open>undefined\<close>.\<close>

fun ToBoolean :: "json \<Rightarrow> bool" where
  "ToBoolean JNull = False"
| "ToBoolean (JBool b) = b"
| "ToBoolean (JNum n) = (n \<noteq> 0)"
| "ToBoolean (JStr s) = (s \<noteq> [])"
| "ToBoolean (JArr xs) = True"
| "ToBoolean (JObj kvs) = True"

text \<open>\<^verbatim>\<open>a || b\<close>, where \<open>a\<close> may be \<^verbatim>\<open>undefined\<close>.\<close>

definition or_else :: "json option \<Rightarrow> json \<Rightarrow> json" where
  "or_else a b = (case a of None \<Rightarrow> b | Some v \<Rightarrow> if ToBoolean v then v else b)"

text \<open>
  What a \<^verbatim>\<open>catch\<close> clause can receive: an instance of \<^verbatim>\<open>Error\<close> with its message, or
  any other value. The handler tells the two apart and reads nothing else.
\<close>

datatype thrown = ErrorInstance string | NonError

text \<open>
  A promise, seen by the code that awaits it: fulfilled with a value, rejected with a
  thrown value, or never settled.
\<close>

datatype 'a promise = Fulfilled 'a | Rejected thrown | Unsettled

subsection \<open>Numbers and dates as text\<close>

definition digit_char :: "nat \<Rightarrow> char" where
  "digit_char d = ''0123456789'' ! (d mod 10)"

fun show_nat :: "nat \<Rightarrow> string" where
  "show_nat n = (if n < 10 then [digit_char n] else show_nat (n div 10) @ [digit_char (n mod 10)])"

declare show_nat.simps [simp del]

definition pad_start :: "nat \<Rightarrow> string \<Rightarrow> string" where
  "pad_start n s = replicate (n - length s) CHR ''0'' @ s"

text \<open>
  \<^verbatim>\<open>new Date().toISOString()\<close>. A date is its time value \<open>t\<close>, the milliseconds since
  the epoch in UTC, and the string is put together from the year, month, day, hour,
  minute, second and millisecond of \<open>t\<close>. These are the functions of the same names in
  the ECMAScript standard (section "Time Values and Time Range" and the following ones),
  with the month counted from 0. The standard defines \<^verbatim>\<open>YearFromTime(t)\<close> as the largest
  year \<open>y\<close> with \<open>DayFromYear y \<le> Day t\<close>; here it is computed from the year that an
  average year length of 365.2425 days gives, which is off by one at most
  (\<open>YearFromTime_largest\<close> below).
\<close>

definition Day :: "int \<Rightarrow> int" where
  "Day t = t div 86400000"

definition DaysInYear :: "int \<Rightarrow> int" where
  "DaysInYear y =
     (if y mod 4 \<noteq> 0 then 365 else if y mod 100 \<noteq> 0 then 366 else if y mod 400 \<noteq> 0 then 365 else 366)"

definition DayFromYear :: "int \<Rightarrow> int" where
  "DayFromYear y = 365 * (y - 1970) + (y - 1969) div 4 - (y - 1901) div 100 + (y - 1601) div 400"

definition YearFromTime :: "int \<Rightarrow> int" where
  "YearFromTime t =
     (let y = 1970 + (400 * Day t) div 146097
      in if DayFromYear (y + 1) \<le> Day t then y + 1
         else if DayFromYear y \<le> Day t then y
         else y - 1)"

definition InLeapYear :: "int \<Rightarrow> int" where
  "InLeapYear t = (if DaysInYear (YearFromTime t) = 366 then 1 else 0)"

definition DayWithinYear :: "int \<Rightarrow> int" where
  "DayWithinYear t = Day t - DayFromYear (YearFromTime t)"

definition MonthFromTime :: "int \<Rightarrow> int" where
  "MonthFromTime t =
     (let d = DayWithinYear t; l = InLeapYear t
      in if d < 31 then 0
         else if d < 59 + l then 1
         else if d < 90 + l then 2
         else if d < 120 + l then 3
         else if d < 151 + l then 4
         else if d < 181 + l then 5
         else if d < 212 + l then 6
         else if d < 243 + l then 7
         else if d < 273 + l then 8
         else if d < 304 + l then 9
         else if d < 334 + l then 10
         else 11)"

definition DateFromTime :: "int \<Rightarrow> int" where
  "DateFromTime t =
     (let d = DayWithinYear t; l = InLeapYear t; m = MonthFromTime t
      in if m = 0 then d + 1
         else if m = 1 then d - 30
         else if m = 2 then d - 58 - l
         else if m = 3 then d - 89 - l
         else if m = 4 then d - 119 - l
         else if m = 5 then d - 150 - l
         else if m = 6 then d - 180 - l
         else if m = 7 then d - 211 - l
         else if m = 8 then d - 242 - l
         else if m = 9 then d - 272 - l
         else if m = 10 then d - 303 - l
         else d - 333 - l)"

definition HourFromTime :: "int \<Rightarrow> int" where
  "HourFromTime t = (t div 3600000) mod 24"

definition MinFromTime :: "int \<Rightarrow> int" where
  "MinFromTime t = (t div 60000) mod 60"

definition SecFromTime :: "int \<Rightarrow> int" where
  "SecFromTime t = (t div 1000) mod 60"

definition msFromTime :: "int \<Rightarrow> int" where
  "msFromTime t = t mod 1000"

text \<open>
  A year from 0 to 9999 is written with four digits, any other with a sign and six
  digits.
\<close>

definition show_year :: "int \<Rightarrow> string" where
  "show_year y =
     (if 0 \<le> y \<and> y \<le> 9999 then pad_start 4 (show_nat (nat y))
      else (if y < 0 then ''-'' else ''+'') @ pad_start 6 (show_nat (nat \<bar>y\<bar>)))"

definition toISOString :: "int \<Rightarrow> string" where
  "toISOString t =
     show_year (YearFromTime t) @ ''-'' @
     pad_start 2 (show_nat (nat (MonthFromTime t + 1))) @ ''-'' @
     pad_start 2 (show_nat (nat (DateFromTime t))) @ ''T'' @
     pad_start 2 (show_nat (nat (HourFromTime t))) @ '':'' @
     pad_start 2 (show_nat (nat (MinFromTime t))) @ '':'' @
     pad_start 2 (show_nat (nat (SecFromTime t))) @ ''.'' @
     pad_start 3 (show_nat (nat (msFromTime t))) @ ''Z''"

subsection \<open>The world outside the component\<close>

record request =
  url :: string
  http_method :: string
  headers :: "(string \<times> string) list"
  body :: json

text \<open>
  A response as the handler reads it: its status, and what \<^verbatim>\<open>response.json()\<close>
  settles to. \<^verbatim>\<open>response.ok\<close> is true for a status from 200 to 299.
\<close>

record response =
  status :: nat
  json_body :: "json promise"

definition ok :: "response \<Rightarrow> bool" where
  "ok r = (200 \<le> status r \<and> status r \<le> 299)"

text \<open>
  Everything the handler asks of its surroundings: the clock, the network, and two
  answers of the JavaScript engine whose text is the engine's own: the message of the
  \<^verbatim>\<open>TypeError\<close> raised by reading a property of \<^verbatim>\<open>null\<close>, and the conversion to a
  string of a value that is not a string (it can throw, for an object that carries its
  own \<^verbatim>\<open>toString\<close> property).
\<close>

record world =
  now :: int
  fetch :: "request \<Rightarrow> response promise"
  null_property_message :: string
  ToString_other :: "json \<Rightarrow> thrown + string"

subsection \<open>Component state and effects (lines 46 to 50)\<close>

text \<open>
  The four \<^verbatim>\<open>useState\<close> cells. \<^verbatim>\<open>sentPayload\<close> and \<^verbatim>\<open>webhookResponse\<close> hold a
  JavaScript value, \<^verbatim>\<open>null\<close> at first; \<^verbatim>\<open>error\<close> holds a string or \<^verbatim>\<open>null\<close>
  (\<open>None\<close>).
\<close>

record ui_state =
  isSubmitting :: bool
  sentPayload :: json
  webhookResponse :: json
  error :: "string option"

definition initial_state :: ui_state where
  "initial_state = \<lparr>isSubmitting = False, sentPayload = JNull, webhookResponse = JNull, error = None\<rparr>"

record toast_args =
  title :: string
  description :: string
  variant :: "string option"

text \<open>
  What the handler does that can be seen from outside, in the order it does it: the
  four setters, the call of \<^verbatim>\<open>fetch\<close>, and the call of \<^verbatim>\<open>toast\<close>.
\<close>

datatype effect =
  SetIsSubmitting bool
| SetError "string option"
| SetSentPayload json
| SetWebhookResponse json
| FetchCall request
| Toast toast_args

fun apply_effect :: "ui_state \<Rightarrow> effect \<Rightarrow> ui_state" where
  "apply_effect s (SetIsSubmitting b) = s\<lparr>isSubmitting := b\<rparr>"
| "apply_effect s (SetError e) = s\<lparr>error := e\<rparr>"
| "apply_effect s (SetSentPayload p) = s\<lparr>sentPayload := p\<rparr>"
| "apply_effect s (SetWebhookResponse r) = s\<lparr>webhookResponse := r\<rparr>"
| "apply_effect s (FetchCall r) = s"
| "apply_effect s (Toast t) = s"

definition run_effects :: "ui_state \<Rightarrow> effect list \<Rightarrow> ui_state" where
  "run_effects s es = foldl apply_effect s es"

subsection \<open>Asynchronous code\<close>

text \<open>
  A piece of an \<^verbatim>\<open>async\<close> function: the effects it performed, and how it ended:
  normally with a value, by throwing, or suspended at an \<^verbatim>\<open>await\<close> whose promise never
  settles.
\<close>

type_synonym 'a action = "effect list \<times> 'a promise"

definition ret :: "'a \<Rightarrow> 'a action" where
  "ret x = ([], Fulfilled x)"

definition throw :: "thrown \<Rightarrow> 'a action" where
  "throw t = ([], Rejected t)"

definition emit :: "effect \<Rightarrow> unit action" where
  "emit e = ([e], Fulfilled ())"

definition await :: "'a promise \<Rightarrow> 'a action" where
  "await p = ([], p)"

text \<open>\<^verbatim>\<open>const x = a; f(x)\<close>: the rest runs only when \<open>a\<close> ends normally.\<close>

definition bind :: "'a action \<Rightarrow> ('a \<Rightarrow> 'b action) \<Rightarrow> 'b action" where
  "bind a f =
     (case snd a of
        Fulfilled x \<Rightarrow> (fst a @ fst (f x), snd (f x))
      | Rejected t \<Rightarrow> (fst a, Rejected t)
      | Unsettled \<Rightarrow> (fst a, Unsettled))"

definition seq :: "unit action \<Rightarrow> 'b action \<Rightarrow> 'b action" where
  "seq a b = bind a (\<lambda>_. b)"

text \<open>\<^verbatim>\<open>try { a } catch (err) { h(err) }\<close>\<close>

definition try_catch :: "'a action \<Rightarrow> (thrown \<Rightarrow> 'a action) \<Rightarrow> 'a action" where
  "try_catch a h =
     (case snd a of
        Rejected t \<Rightarrow> (fst a @ fst (h t), snd (h t))
      | _ \<Rightarrow> a)"

text \<open>
  \<^verbatim>\<open>try { a } finally { fin }\<close>: the finalizer runs when \<open>a\<close> has ended, normally or
  not, and the whole ends as \<open>a\<close> did unless the finalizer itself does not end normally.
\<close>

definition try_finally :: "'a action \<Rightarrow> unit action \<Rightarrow> 'a action" where
  "try_finally a fin =
     (case snd a of
        Unsettled \<Rightarrow> a
      | _ \<Rightarrow>
         (case snd fin of
            Fulfilled _ \<Rightarrow> (fst a @ fst fin, snd a)
          | Rejected t \<Rightarrow> (fst a @ fst fin, Rejected t)
          | Unsettled \<Rightarrow> (fst a @ fst fin, Unsettled)))"

subsection \<open>The submit handler (lines 73 to 129)\<close>

text \<open>Lines 79 to 94.\<close>

definition build_payload :: "FormValues \<Rightarrow> int \<Rightarrow> json" where
  "build_payload values t =
     JObj [(''messaging_product'', JStr ''whatsapp''),
           (''from_phone_number_id'', JStr (phoneNumberId values)),
           (''to'', JStr (recipientPhone values)),
           (''type'', JStr ''template''),
           (''template'',
              JObj [(''name'', JStr (template values)),
                    (''language'', JObj [(''code'', JStr ''en_US'')])]),
           (''debug'',
              JObj [(''ui_origin'', JStr ''lovable-web-sender''),
                    (''sent_at'', JStr (toISOString t))])]"

text \<open>
  The argument of \<^verbatim>\<open>fetch\<close> (lines 99 to 105). The body is the value that the text
  \<^verbatim>\<open>JSON.stringify(payload)\<close> denotes.
\<close>

definition webhook_request :: "json \<Rightarrow> request" where
  "webhook_request payload =
     \<lparr>url = WEBHOOK_URL, http_method = ''POST'',
      headers = [(''Content-Type'', ''application/json'')], body = payload\<rparr>"

text \<open>
  \<^verbatim>\<open>data.message\<close>: a \<^verbatim>\<open>TypeError\<close> on \<^verbatim>\<open>null\<close>; the property of an object, or
  \<^verbatim>\<open>undefined\<close> when it has none; \<^verbatim>\<open>undefined\<close> on an array, a string, a number or a
  boolean, whose prototypes have no property of that name.
\<close>

definition get_message :: "world \<Rightarrow> json \<Rightarrow> (json option) action" where
  "get_message w data =
     (case data of
        JNull \<Rightarrow> throw (ErrorInstance (null_property_message w))
      | JObj kvs \<Rightarrow> ret (map_of kvs ''message'')
      | _ \<Rightarrow> ret None)"

text \<open>\<^verbatim>\<open>new Error(m)\<close>: the message is \<open>m\<close> converted to a string.\<close>

definition new_Error :: "world \<Rightarrow> json \<Rightarrow> thrown action" where
  "new_Error w m =
     (case m of
        JStr s \<Rightarrow> ret (ErrorInstance s)
      | _ \<Rightarrow> (case ToString_other w m of Inl t \<Rightarrow> throw t | Inr s \<Rightarrow> ret (ErrorInstance s)))"

text \<open>
  Line 110, the value thrown for a response that is not \<^verbatim>\<open>ok\<close>:
  \<^verbatim>\<open>new Error(data.message || `Erro: ${response.status}`)\<close>.
\<close>

definition failure_error :: "world \<Rightarrow> response \<Rightarrow> json \<Rightarrow> thrown action" where
  "failure_error w response data =
     bind (get_message w data) (\<lambda>m.
       new_Error w (or_else m (JStr (''Erro: '' @ show_nat (status response)))))"

text \<open>The arguments of the two calls of \<^verbatim>\<open>toast\<close> (lines 114 to 117 and 121 to 125).\<close>

definition success_toast :: toast_args where
  "success_toast =
     \<lparr>title = ''Mensagem enviada com sucesso!'',
      description = ''O template foi enviado para o webhook.'', variant = None\<rparr>"

definition failure_toast :: "string \<Rightarrow> toast_args" where
  "failure_toast errorMessage =
     \<lparr>title = ''Erro ao enviar'', description = errorMessage, variant = Some ''destructive''\<rparr>"

text \<open>Lines 99 to 117: the body of the \<^verbatim>\<open>try\<close>.\<close>

definition onSubmit_try :: "world \<Rightarrow> json \<Rightarrow> unit action" where
  "onSubmit_try w payload =
     seq (emit (FetchCall (webhook_request payload)))
    (bind (await (fetch w (webhook_request payload))) (\<lambda>response.
     bind (await (json_body response)) (\<lambda>data.
     seq (if \<not> ok response then bind (failure_error w response data) throw else ret ())
    (seq (emit (SetWebhookResponse data))
         (emit (Toast success_toast))))))"

text \<open>Lines 118 to 125: the \<^verbatim>\<open>catch\<close>.\<close>

definition errorMessage :: "thrown \<Rightarrow> string" where
  "errorMessage err = (case err of ErrorInstance m \<Rightarrow> m | NonError \<Rightarrow> ''Erro desconhecido ao enviar'')"

definition onSubmit_catch :: "thrown \<Rightarrow> unit action" where
  "onSubmit_catch err =
     seq (emit (SetError (Some (errorMessage err))))
         (emit (Toast (failure_toast (errorMessage err))))"

text \<open>Lines 73 to 129.\<close>

definition onSubmit :: "world \<Rightarrow> FormValues \<Rightarrow> unit action" where
  "onSubmit w values =
     seq (emit (SetIsSubmitting True))
    (seq (emit (SetError None))
    (seq (emit (SetSentPayload JNull))
    (seq (emit (SetWebhookResponse JNull))
    (let payload = build_payload values (now w) in
     seq (emit (SetSentPayload payload))
         (try_finally
            (try_catch (onSubmit_try w payload) onSubmit_catch)
            (emit (SetIsSubmitting False)))))))"

text \<open>
  \<^verbatim>\<open>form.handleSubmit(onSubmit)\<close> (line 147): the resolver runs the schema on the
  field values, and the handler is called only when there is no issue.
\<close>

definition handleSubmit :: "world \<Rightarrow> FormValues \<Rightarrow> unit action" where
  "handleSubmit w v = (case formSchema v of Inr values \<Rightarrow> onSubmit w values | Inl issues \<Rightarrow> ret ())"

text \<open>The component state after an attempt that began in state \<open>s\<close>.\<close>

definition state_after :: "ui_state \<Rightarrow> unit action \<Rightarrow> ui_state" where
  "state_after s a = run_effects s (fst a)"

subsection \<open>Notions used in the statements\<close>

text \<open>
  The recipient format in the words of the specification: the literal prefix
  \<^verbatim>\<open>55\<close> followed by 10 to 11 digits.
\<close>

definition prefix_55_then_10_to_11_digits :: "string \<Rightarrow> bool" where
  "prefix_55_then_10_to_11_digits s =
     (take 2 s = ''55'' \<and> list_all is_digit (drop 2 s) \<and>
      (length (drop 2 s) = 10 \<or> length (drop 2 s) = 11))"

text \<open>
  The \<^verbatim>\<open>message\<close> field of a parsed body, when it has one (\<open>None\<close>: the body is not
  an object, or is an object without that key).
\<close>

definition message_field :: "json \<Rightarrow> json option" where
  "message_field data = (case data of JObj kvs \<Rightarrow> map_of kvs ''message'' | _ \<Rightarrow> None)"

text \<open>
  The ISO 8601 form that \<^verbatim>\<open>toISOString\<close> produces: \<^verbatim>\<open>YYYY-MM-DDTHH:mm:ss.sssZ\<close>, or the
  same with an expanded year \<^verbatim>\<open>+YYYYYY\<close> or \<^verbatim>\<open>-YYYYYY\<close>. In a pattern, \<^verbatim>\<open>d\<close> stands
  for a digit and any other character for itself.
\<close>

definition matches_mask :: "string \<Rightarrow> string \<Rightarrow> bool" where
  "matches_mask pat s = list_all2 (\<lambda>p c. if p = CHR ''d'' then is_digit c else c = p) pat s"

definition iso_8601_utc :: "string \<Rightarrow> bool" where
  "iso_8601_utc s =
     (matches_mask ''dddd-dd-ddTdd:dd:dd.dddZ'' s \<or>
      matches_mask ''+dddddd-dd-ddTdd:dd:dd.dddZ'' s \<or>
      matches_mask ''-dddddd-dd-ddTdd:dd:dd.dddZ'' s)"

text \<open>The effects of lines 74 to 96, before the \<^verbatim>\<open>try\<close> is entered.\<close>

definition prologue :: "json \<Rightarrow> effect list" where
  "prologue payload =
     [SetIsSubmitting True, SetError None, SetSentPayload JNull, SetWebhookResponse JNull,
      SetSentPayload payload]"

text \<open>The component state after each effect of a list, in order.\<close>

fun states_along :: "ui_state \<Rightarrow> effect list \<Rightarrow> ui_state list" where
  "states_along s [] = []"
| "states_along s (e # es) = apply_effect s e # states_along (apply_effect s e) es"

definition is_fetch :: "effect \<Rightarrow> bool" where
  "is_fetch e = (case e of FetchCall r \<Rightarrow> True | _ \<Rightarrow> False)"

text \<open>
  The network call of an attempt resolves: \<^verbatim>\<open>fetch\<close> rejects, or it fulfils with a
  response whose \<^verbatim>\<open>json()\<close> fulfils or rejects. It does not resolve while either of the
  two promises stays unsettled. This is a condition on the world alone.
\<close>

definition call_resolves :: "world \<Rightarrow> FormValues \<Rightarrow> bool" where
  "call_resolves w v =
     (case fetch w (webhook_request (build_payload v (now w))) of
        Unsettled \<Rightarrow> False
      | Rejected t \<Rightarrow> True
      | Fulfilled r \<Rightarrow> (case json_body r of Unsettled \<Rightarrow> False | _ \<Rightarrow> True))"

text \<open>
  The state after a series of submit clicks, each carried to its end before the next
  (the submit button is disabled while \<^verbatim>\<open>isSubmitting\<close> holds, line 234).
\<close>

definition session :: "ui_state \<Rightarrow> (world \<times> FormValues) list \<Rightarrow> ui_state" where
  "session s attempts = foldl (\<lambda>st a. state_after st (handleSubmit (fst a) (snd a))) s attempts"

text \<open>
  A world for the scenarios: the clock stands at a fixed instant and the webhook answers
  every request with the promise \<open>p\<close>.
\<close>

definition mock_world :: "response promise \<Rightarrow> world" where
  "mock_world p =
     \<lparr>now = 1700000000000, fetch = (\<lambda>req. p), null_property_message = ''data is null'',
      ToString_other = (\<lambda>v. Inr ''[object Object]'')\<rparr>"

definition mock_response :: "nat \<Rightarrow> json \<Rightarrow> response promise" where
  "mock_response st b = Fulfilled \<lparr>status = st, json_body = Fulfilled b\<rparr>"

definition scenario_values :: FormValues where
  "scenario_values =
     \<lparr>template = ''hello_world'', phoneNumberId = ''785310631336841'',
      recipientPhone = ''5599999999999''\<rparr>"

section \<open>Properties\<close>

subsection \<open>The recipient's number\<close>

lemma atom_matches_Digit: "atom_matches Digit = is_digit"
  by (rule ext) simp

lemma recipientPhone_regex_iff:
  "regex_test recipientPhone_regex s = prefix_55_then_10_to_11_digits s"
proof (cases s)
  case Nil
  then show ?thesis
    by (simp add: regex_test_def recipientPhone_regex_def prefix_55_then_10_to_11_digits_def)
next
  case (Cons a s')
  show ?thesis
  proof (cases s')
    case Nil
    with Cons show ?thesis
      by (simp add: regex_test_def recipientPhone_regex_def prefix_55_then_10_to_11_digits_def)
  next
    case (Cons b ds)
    with \<open>s = a # s'\<close> show ?thesis
      by (auto simp add: regex_test_def recipientPhone_regex_def prefix_55_then_10_to_11_digits_def
          upt_rec[of 10] upt_rec[of 11] upt_rec[of 12] atom_matches_Digit)
  qed
qed

lemma recipient_onChange_filter: "recipient_onChange s = filter is_digit s"
  by (induction s) (simp_all add: recipient_onChange_def replace_global_def)

lemma form_steps_digits:
  "list_all is_digit (recipientPhone v) \<Longrightarrow> list_all is_digit (recipientPhone (foldl form_step v evs))"
proof (induction evs arbitrary: v)
  case Nil
  then show ?case by simp
next
  case (Cons e evs)
  have "list_all is_digit (recipientPhone (form_step v e))"
    using Cons.prems by (cases e) (simp_all add: recipient_onChange_filter list_all_iff)
  then show ?case using Cons.IH by simp
qed

lemma field_issues_recipient:
  "(field_issues RecipientPhone v = []) =
     (recipientPhone v \<noteq> [] \<and> regex_test recipientPhone_regex (recipientPhone v))"
  by (simp add: field_issues_def formSchema_issues_def z_min_def z_regex_def)

text \<open>
  C2. The change handler of the recipient input keeps exactly the digits of what was
  typed, in their order; whatever the user does to the form, the stored recipient number
  consists of digits only; and the recipient field passes the schema if and only if it
  is non-empty and is the prefix 55 followed by 10 to 11 digits.
\<close>

theorem recipientPhone_stripped_and_validated:
  "recipient_onChange s = filter is_digit s \<and>
   list_all is_digit (recipient_onChange s) \<and>
   list_all is_digit (recipientPhone (form_after evs)) \<and>
   (field_issues RecipientPhone v = []) =
     (recipientPhone v \<noteq> [] \<and> prefix_55_then_10_to_11_digits (recipientPhone v))"
proof -
  have digits: "list_all is_digit (recipient_onChange s)"
    by (simp add: recipient_onChange_filter list_all_iff)
  have stored: "list_all is_digit (recipientPhone (form_after evs))"
    unfolding form_after_def by (rule form_steps_digits) (simp add: defaultValues_def)
  show ?thesis
    using digits stored
    by (simp add: recipient_onChange_filter field_issues_recipient recipientPhone_regex_iff)
qed

theorem recipientPhone_stripped_and_validated_witness:
  "recipient_onChange ''+55 (99) 99999-9999'' = ''5599999999999'' \<and>
   recipientPhone (form_after [EditRecipient ''55 99 9999-9999 ext. x'']) = ''559999999999'' \<and>
   field_issues RecipientPhone scenario_values = [] \<and>
   field_issues RecipientPhone (scenario_values\<lparr>recipientPhone := ''123''\<rparr>) \<noteq> []"
  using recipientPhone_stripped_and_validated [of "''+55 (99) 99999-9999''" "[]" scenario_values]
    recipientPhone_stripped_and_validated [of "[]" "[]" "scenario_values\<lparr>recipientPhone := ''123''\<rparr>"]
  by (simp add: scenario_values_def prefix_55_then_10_to_11_digits_def is_digit_def
      form_after_def recipient_onChange_filter)

subsection \<open>How a run of the handler ends\<close>

lemma bind_Fulfilled: "bind (es, Fulfilled x) f = (es @ fst (f x), snd (f x))"
  and bind_Rejected: "bind (es, Rejected t) f = (es, Rejected t)"
  and bind_Unsettled: "bind (es, Unsettled) f = (es, Unsettled)"
  by (simp_all add: bind_def)

lemma try_catch_Rejected: "try_catch (es, Rejected t) h = (es @ fst (h t), snd (h t))"
  and try_catch_Fulfilled: "try_catch (es, Fulfilled x) h = (es, Fulfilled x)"
  and try_catch_Unsettled: "try_catch (es, Unsettled) h = (es, Unsettled)"
  by (simp_all add: try_catch_def)

lemma try_finally_emit:
  "try_finally (es, Fulfilled x) (emit e) = (es @ [e], Fulfilled x)"
  "try_finally (es, Rejected t) (emit e) = (es @ [e], Rejected t)"
  "try_finally (es, Unsettled) (emit e) = (es, Unsettled)"
  by (simp_all add: try_finally_def emit_def)

lemmas action_simps = bind_Fulfilled bind_Rejected bind_Unsettled seq_def emit_def ret_def
  throw_def await_def try_catch_Rejected try_catch_Fulfilled try_catch_Unsettled

text \<open>The expression of line 110 performs no effect and never suspends.\<close>

lemma failure_error_pure:
  "(\<exists>e. failure_error w r d = ([], Fulfilled e)) \<or> (\<exists>t. failure_error w r d = ([], Rejected t))"
  by (cases d; simp add: failure_error_def get_message_def new_Error_def or_else_def action_simps
      split: option.splits json.splits sum.splits)

lemma failure_throws:
  obtains t where "(bind (failure_error w r d) throw :: unit action) = ([], Rejected t)"
  using failure_error_pure[of w r d] by (auto simp: action_simps)

lemma try_fetch_unsettled:
  "fetch w (webhook_request p) = Unsettled \<Longrightarrow>
   onSubmit_try w p = ([FetchCall (webhook_request p)], Unsettled)"
  by (simp add: onSubmit_try_def action_simps)

lemma try_fetch_rejected:
  "fetch w (webhook_request p) = Rejected t \<Longrightarrow>
   onSubmit_try w p = ([FetchCall (webhook_request p)], Rejected t)"
  by (simp add: onSubmit_try_def action_simps)

lemma try_json_unsettled:
  "fetch w (webhook_request p) = Fulfilled r \<Longrightarrow> json_body r = Unsettled \<Longrightarrow>
   onSubmit_try w p = ([FetchCall (webhook_request p)], Unsettled)"
  by (simp add: onSubmit_try_def action_simps)

lemma try_json_rejected:
  "fetch w (webhook_request p) = Fulfilled r \<Longrightarrow> json_body r = Rejected t \<Longrightarrow>
   onSubmit_try w p = ([FetchCall (webhook_request p)], Rejected t)"
  by (simp add: onSubmit_try_def action_simps)

lemma try_ok:
  "fetch w (webhook_request p) = Fulfilled r \<Longrightarrow> json_body r = Fulfilled d \<Longrightarrow> ok r \<Longrightarrow>
   onSubmit_try w p =
     ([FetchCall (webhook_request p), SetWebhookResponse d, Toast success_toast], Fulfilled ())"
  by (simp add: onSubmit_try_def action_simps)

lemma try_not_ok:
  "fetch w (webhook_request p) = Fulfilled r \<Longrightarrow> json_body r = Fulfilled d \<Longrightarrow> \<not> ok r \<Longrightarrow>
   (bind (failure_error w r d) throw :: unit action) = ([], Rejected t) \<Longrightarrow>
   onSubmit_try w p = ([FetchCall (webhook_request p)], Rejected t)"
  by (simp add: onSubmit_try_def action_simps)

lemma onSubmit_of_try_unsettled:
  "onSubmit_try w (build_payload v (now w)) = (es, Unsettled) \<Longrightarrow>
   onSubmit w v = (prologue (build_payload v (now w)) @ es, Unsettled)"
  by (simp add: onSubmit_def Let_def action_simps try_finally_emit[unfolded emit_def] prologue_def)

lemma onSubmit_of_try_rejected:
  "onSubmit_try w (build_payload v (now w)) = (es, Rejected t) \<Longrightarrow>
   onSubmit w v = (prologue (build_payload v (now w)) @ es @
       [SetError (Some (errorMessage t)), Toast (failure_toast (errorMessage t)), SetIsSubmitting False],
     Fulfilled ())"
  by (simp add: onSubmit_def Let_def action_simps try_finally_emit[unfolded emit_def] prologue_def onSubmit_catch_def)

lemma onSubmit_of_try_fulfilled:
  "onSubmit_try w (build_payload v (now w)) = (es, Fulfilled ()) \<Longrightarrow>
   onSubmit w v = (prologue (build_payload v (now w)) @ es @ [SetIsSubmitting False], Fulfilled ())"
  by (simp add: onSubmit_def Let_def action_simps try_finally_emit[unfolded emit_def] prologue_def)

lemma onSubmit_success:
  assumes "fetch w (webhook_request (build_payload v (now w))) = Fulfilled r"
    and "json_body r = Fulfilled d" and "ok r"
  shows "onSubmit w v =
    (prologue (build_payload v (now w)) @
       [FetchCall (webhook_request (build_payload v (now w))), SetWebhookResponse d,
        Toast success_toast, SetIsSubmitting False], Fulfilled ())"
  using onSubmit_of_try_fulfilled [OF try_ok [OF assms]] by simp

lemma onSubmit_caught:
  assumes "onSubmit_try w (build_payload v (now w)) =
             ([FetchCall (webhook_request (build_payload v (now w)))], Rejected t)"
  shows "onSubmit w v =
    (prologue (build_payload v (now w)) @
       [FetchCall (webhook_request (build_payload v (now w))), SetError (Some (errorMessage t)),
        Toast (failure_toast (errorMessage t)), SetIsSubmitting False], Fulfilled ())"
  using onSubmit_of_try_rejected [OF assms] by simp

lemma onSubmit_suspended:
  assumes "onSubmit_try w (build_payload v (now w)) =
             ([FetchCall (webhook_request (build_payload v (now w)))], Unsettled)"
  shows "onSubmit w v =
    (prologue (build_payload v (now w)) @
       [FetchCall (webhook_request (build_payload v (now w)))], Unsettled)"
  using onSubmit_of_try_unsettled [OF assms] by simp

lemma onSubmit_cases [case_names pending failed succeeded]:
  obtains
    (pending) "onSubmit w v =
      (prologue (build_payload v (now w)) @
         [FetchCall (webhook_request (build_payload v (now w)))], Unsettled)"
  | (failed) t where "onSubmit w v =
      (prologue (build_payload v (now w)) @
         [FetchCall (webhook_request (build_payload v (now w))), SetError (Some (errorMessage t)),
          Toast (failure_toast (errorMessage t)), SetIsSubmitting False], Fulfilled ())"
  | (succeeded) r d where "fetch w (webhook_request (build_payload v (now w))) = Fulfilled r"
      "json_body r = Fulfilled d" "ok r"
      "onSubmit w v =
      (prologue (build_payload v (now w)) @
         [FetchCall (webhook_request (build_payload v (now w))), SetWebhookResponse d,
          Toast success_toast, SetIsSubmitting False], Fulfilled ())"
proof (cases "fetch w (webhook_request (build_payload v (now w)))")
  case (Fulfilled r)
  note f = this
  show ?thesis
  proof (cases "json_body r")
    case (Fulfilled d)
    show ?thesis
    proof (cases "ok r")
      case True
      from onSubmit_success [OF f Fulfilled True] f Fulfilled True show ?thesis
        by (rule_tac succeeded)
    next
      case False
      obtain t where "(bind (failure_error w r d) throw :: unit action) = ([], Rejected t)"
        by (rule failure_throws)
      from onSubmit_caught [OF try_not_ok [OF f Fulfilled False this]] show ?thesis
        by (rule failed)
    qed
  next
    case (Rejected t)
    from onSubmit_caught [OF try_json_rejected [OF f Rejected]] show ?thesis by (rule failed)
  next
    case Unsettled
    from onSubmit_suspended [OF try_json_unsettled [OF f Unsettled]] show ?thesis by (rule pending)
  qed
next
  case (Rejected t)
  from onSubmit_caught [OF try_fetch_rejected [OF Rejected]] show ?thesis by (rule failed)
next
  case Unsettled
  from onSubmit_suspended [OF try_fetch_unsettled [OF Unsettled]] show ?thesis by (rule pending)
qed

text \<open>The state once the effects have been applied.\<close>

lemmas run_simps = state_after_def run_effects_def prologue_def

subsection \<open>A response with a success status\<close>

text \<open>
  C5. When the response has a status from 200 to 299 and its body parses as the JSON
  value \<open>B\<close>, of any shape, the attempt completes, \<^verbatim>\<open>webhookResponse\<close> is set to \<open>B\<close>
  and \<^verbatim>\<open>error\<close> is \<^verbatim>\<open>null\<close>, whatever the state the attempt began in.
\<close>

theorem success_sets_webhookResponse:
  assumes "fetch w (webhook_request (build_payload v (now w))) = Fulfilled r"
    and "json_body r = Fulfilled B"
    and "200 \<le> status r" and "status r \<le> 299"
  shows "snd (onSubmit w v) = Fulfilled () \<and>
         SetWebhookResponse B \<in> set (fst (onSubmit w v)) \<and>
         webhookResponse (state_after s (onSubmit w v)) = B \<and>
         error (state_after s (onSubmit w v)) = None"
proof -
  have "ok r" using assms(3,4) by (simp add: ok_def)
  from onSubmit_success [OF assms(1,2) this] show ?thesis
    by (simp add: run_simps)
qed

theorem success_sets_webhookResponse_witness:
  "fetch (mock_world (mock_response 200 (JObj [(''message'', JStr ''ok'')])))
      (webhook_request (build_payload scenario_values
         (now (mock_world (mock_response 200 (JObj [(''message'', JStr ''ok'')])))))) =
     Fulfilled \<lparr>status = 200, json_body = Fulfilled (JObj [(''message'', JStr ''ok'')])\<rparr> \<and>
   (200::nat) \<le> 200 \<and> (200::nat) \<le> 299 \<and>
   webhookResponse (state_after initial_state
      (onSubmit (mock_world (mock_response 200 (JObj [(''message'', JStr ''ok'')]))) scenario_values)) =
     JObj [(''message'', JStr ''ok'')] \<and>
   error (state_after initial_state
      (onSubmit (mock_world (mock_response 200 (JObj [(''message'', JStr ''ok'')]))) scenario_values)) = None"
proof -
  let ?B = "JObj [(''message'', JStr ''ok'')]"
  let ?w = "mock_world (mock_response 200 ?B)"
  let ?r = "\<lparr>status = 200, json_body = Fulfilled ?B\<rparr>"
  have h1: "fetch ?w (webhook_request (build_payload scenario_values (now ?w))) = Fulfilled ?r"
    by (simp add: mock_world_def mock_response_def)
  have h2: "json_body ?r = Fulfilled ?B" by simp
  have h3: "200 \<le> status ?r" and h4: "status ?r \<le> 299" by simp_all
  show ?thesis
    using success_sets_webhookResponse [OF h1 h2 h3 h4, of initial_state] h1 by simp
qed

subsection \<open>A response with a failure status\<close>

lemma show_nat_500: "show_nat 500 = ''500''"
  by (simp add: show_nat.simps digit_char_def)

lemma get_message_not_null: "d \<noteq> JNull \<Longrightarrow> get_message w d = ([], Fulfilled (message_field d))"
  by (cases d) (simp_all add: get_message_def message_field_def ret_def)

lemma get_message_null: "get_message w JNull = ([], Rejected (ErrorInstance (null_property_message w)))"
  by (simp add: get_message_def throw_def)

lemma failure_error_string:
  assumes "message_field d = Some (JStr m)" and "m \<noteq> []"
  shows "failure_error w r d = ([], Fulfilled (ErrorInstance m))"
proof -
  have "d \<noteq> JNull" using assms(1) by (auto simp: message_field_def)
  then show ?thesis using assms
    by (simp add: failure_error_def get_message_not_null bind_Fulfilled or_else_def new_Error_def ret_def)
qed

lemma failure_error_fallback:
  assumes "d \<noteq> JNull" and "message_field d = None \<or> (\<exists>m. message_field d = Some m \<and> \<not> ToBoolean m)"
  shows "failure_error w r d = ([], Fulfilled (ErrorInstance (''Erro: '' @ show_nat (status r))))"
  using assms
  by (auto simp add: failure_error_def get_message_not_null bind_Fulfilled or_else_def new_Error_def ret_def)

lemma failure_error_null:
  "failure_error w r JNull = ([], Rejected (ErrorInstance (null_property_message w)))"
  by (simp add: failure_error_def get_message_null bind_Rejected)

lemma failure_error_other:
  assumes "message_field d = Some m" and "ToBoolean m" and "\<forall>s. m \<noteq> JStr s"
  shows "failure_error w r d =
    ([], case ToString_other w m of Inl t \<Rightarrow> Rejected t | Inr s \<Rightarrow> Fulfilled (ErrorInstance s))"
proof -
  have "d \<noteq> JNull" using assms(1) by (auto simp: message_field_def)
  then show ?thesis using assms
    by (cases m)
      (simp_all add: failure_error_def get_message_not_null bind_Fulfilled or_else_def new_Error_def
        ret_def throw_def split: sum.splits)
qed

lemma onSubmit_not_ok:
  assumes "fetch w (webhook_request (build_payload v (now w))) = Fulfilled r"
    and "json_body r = Fulfilled d" and "\<not> ok r"
    and "failure_error w r d = ([], Fulfilled t) \<or> failure_error w r d = ([], Rejected t)"
  shows "onSubmit w v =
    (prologue (build_payload v (now w)) @
       [FetchCall (webhook_request (build_payload v (now w))), SetError (Some (errorMessage t)),
        Toast (failure_toast (errorMessage t)), SetIsSubmitting False], Fulfilled ())"
proof -
  have "(bind (failure_error w r d) throw :: unit action) = ([], Rejected t)"
    using assms(4) by (auto simp: bind_Fulfilled bind_Rejected throw_def)
  from onSubmit_caught [OF try_not_ok [OF assms(1-3) this]] show ?thesis .
qed

text \<open>
  C4, as amended. When the response has a status outside 200 to 299 and its body parses
  as the JSON value \<open>B\<close>, the attempt completes as a failure: \<^verbatim>\<open>webhookResponse\<close> is
  \<^verbatim>\<open>null\<close>, \<^verbatim>\<open>sentPayload\<close> holds the payload and \<^verbatim>\<open>error\<close> is a string. That string
  is the \<^verbatim>\<open>message\<close> field of \<open>B\<close> when the field is a non-empty string; it is
  \<^verbatim>\<open>Erro: \<close> followed by the status in decimal when \<open>B\<close> is not \<^verbatim>\<open>null\<close> and the field
  is absent or falsy; it is the engine's string conversion of the field when the field
  is truthy and not a string; and it is the message of the engine's \<^verbatim>\<open>TypeError\<close> when
  \<open>B\<close> is \<^verbatim>\<open>null\<close>.
\<close>

theorem failure_records_error:
  assumes "fetch w (webhook_request (build_payload v (now w))) = Fulfilled r"
    and "json_body r = Fulfilled B"
    and "\<not> (200 \<le> status r \<and> status r \<le> 299)"
  shows "snd (onSubmit w v) = Fulfilled () \<and>
         webhookResponse (state_after s (onSubmit w v)) = JNull \<and>
         sentPayload (state_after s (onSubmit w v)) = build_payload v (now w) \<and>
         error (state_after s (onSubmit w v)) \<noteq> None \<and>
         (\<forall>m. message_field B = Some (JStr m) \<and> m \<noteq> [] \<longrightarrow>
            error (state_after s (onSubmit w v)) = Some m) \<and>
         (B \<noteq> JNull \<and> (message_field B = None \<or> (\<exists>m. message_field B = Some m \<and> \<not> ToBoolean m)) \<longrightarrow>
            error (state_after s (onSubmit w v)) = Some (''Erro: '' @ show_nat (status r))) \<and>
         (\<forall>m. message_field B = Some m \<and> ToBoolean m \<and> (\<forall>x. m \<noteq> JStr x) \<longrightarrow>
            error (state_after s (onSubmit w v)) =
              Some (case ToString_other w m of Inl t \<Rightarrow> errorMessage t | Inr x \<Rightarrow> x)) \<and>
         (B = JNull \<longrightarrow> error (state_after s (onSubmit w v)) = Some (null_property_message w))"
proof -
  let ?final = "state_after s (onSubmit w v)"
  have nok: "\<not> ok r" using assms(3) by (simp add: ok_def)
  note shape = onSubmit_not_ok [OF assms(1,2) nok]
  obtain t where t: "failure_error w r B = ([], Fulfilled t) \<or> failure_error w r B = ([], Rejected t)"
    using failure_error_pure [of w r B] by blast
  have general: "snd (onSubmit w v) = Fulfilled () \<and> webhookResponse ?final = JNull \<and>
      sentPayload ?final = build_payload v (now w) \<and> error ?final \<noteq> None"
    using shape [OF t] by (simp add: run_simps)
  have string: "error ?final = Some m" if "message_field B = Some (JStr m) \<and> m \<noteq> []" for m
    using shape [of "ErrorInstance m"] failure_error_string [of B m w r] that
    by (simp add: run_simps errorMessage_def)
  have fallback: "error ?final = Some (''Erro: '' @ show_nat (status r))"
    if "B \<noteq> JNull \<and> (message_field B = None \<or> (\<exists>m. message_field B = Some m \<and> \<not> ToBoolean m))"
    using shape [of "ErrorInstance (''Erro: '' @ show_nat (status r))"]
      failure_error_fallback [of B w r] that
    by (simp add: run_simps errorMessage_def)
  have other: "error ?final = Some (case ToString_other w m of Inl t \<Rightarrow> errorMessage t | Inr x \<Rightarrow> x)"
    if "message_field B = Some m \<and> ToBoolean m \<and> (\<forall>x. m \<noteq> JStr x)" for m
  proof (cases "ToString_other w m")
    case (Inl t')
    then show ?thesis
      using shape [of t'] failure_error_other [of B m w r] that by (simp add: run_simps)
  next
    case (Inr x)
    then show ?thesis
      using shape [of "ErrorInstance x"] failure_error_other [of B m w r] that
      by (simp add: run_simps errorMessage_def)
  qed
  have null: "error ?final = Some (null_property_message w)" if "B = JNull"
    using shape [of "ErrorInstance (null_property_message w)"] failure_error_null [of w r] that
    by (simp add: run_simps errorMessage_def)
  show ?thesis using general string fallback other null by blast
qed

theorem failure_records_error_witness:
  "fetch (mock_world (mock_response 500 (JObj [(''message'', JStr ''internal failure'')])))
      (webhook_request (build_payload scenario_values
         (now (mock_world (mock_response 500 (JObj [(''message'', JStr ''internal failure'')])))))) =
     Fulfilled \<lparr>status = 500, json_body = Fulfilled (JObj [(''message'', JStr ''internal failure'')])\<rparr> \<and>
   \<not> (200 \<le> (500::nat) \<and> (500::nat) \<le> 299) \<and>
   error (state_after initial_state
      (onSubmit (mock_world (mock_response 500 (JObj [(''message'', JStr ''internal failure'')])))
         scenario_values)) = Some ''internal failure'' \<and>
   webhookResponse (state_after initial_state
      (onSubmit (mock_world (mock_response 500 (JObj [(''message'', JStr ''internal failure'')])))
         scenario_values)) = JNull \<and>
   sentPayload (state_after initial_state
      (onSubmit (mock_world (mock_response 500 (JObj [(''message'', JStr ''internal failure'')])))
         scenario_values)) = build_payload scenario_values 1700000000000"
proof -
  let ?B = "JObj [(''message'', JStr ''internal failure'')]"
  let ?w = "mock_world (mock_response 500 ?B)"
  let ?r = "\<lparr>status = 500, json_body = Fulfilled ?B\<rparr>"
  have h1: "fetch ?w (webhook_request (build_payload scenario_values (now ?w))) = Fulfilled ?r"
    by (simp add: mock_world_def mock_response_def)
  have h2: "json_body ?r = Fulfilled ?B" by simp
  have h3: "\<not> (200 \<le> status ?r \<and> status ?r \<le> 299)" by simp
  have now: "now ?w = 1700000000000" by (simp add: mock_world_def)
  show ?thesis
    using failure_records_error [OF h1 h2 h3, of initial_state] h1
    by (simp add: message_field_def now)
qed

text \<open>
  The claim as first stated fails: a body \<^verbatim>\<open>{"message": ""}\<close> with status 500 has a
  \<^verbatim>\<open>message\<close> field, and the error is \<^verbatim>\<open>Erro: 500\<close>, not that field.
\<close>

theorem message_presence_counterexample:
  "message_field (JObj [(''message'', JStr [])]) = Some (JStr []) \<and>
   error (state_after initial_state
      (onSubmit (mock_world (mock_response 500 (JObj [(''message'', JStr [])]))) scenario_values)) =
     Some ''Erro: 500'' \<and>
   error (state_after initial_state
      (onSubmit (mock_world (mock_response 500 (JObj [(''message'', JStr [])]))) scenario_values)) \<noteq>
     Some []"
proof -
  let ?B = "JObj [(''message'', JStr [])]"
  let ?w = "mock_world (mock_response 500 ?B)"
  let ?r = "\<lparr>status = 500, json_body = Fulfilled ?B\<rparr>"
  have h1: "fetch ?w (webhook_request (build_payload scenario_values (now ?w))) = Fulfilled ?r"
    by (simp add: mock_world_def mock_response_def)
  have h2: "json_body ?r = Fulfilled ?B" by simp
  have h3: "\<not> ok ?r" by (simp add: ok_def)
  have h4: "failure_error ?w ?r ?B = ([], Fulfilled (ErrorInstance ''Erro: 500''))"
    using failure_error_fallback [of ?B ?w ?r] by (simp add: message_field_def show_nat_500)
  have "error (state_after initial_state (onSubmit ?w scenario_values)) = Some ''Erro: 500''"
    using onSubmit_not_ok [OF h1 h2 h3, of "ErrorInstance ''Erro: 500''"] h4
    by (simp add: run_simps errorMessage_def)
  then show ?thesis by (simp add: message_field_def)
qed

text \<open>
  C10. When the response has a status outside 200 to 299 and its body is an object whose
  \<^verbatim>\<open>message\<close> field is falsy (the empty string, \<^verbatim>\<open>null\<close>, \<^verbatim>\<open>false\<close> or zero), the
  error is \<^verbatim>\<open>Erro: \<close> followed by the status, not the field: line 110 tests the
  truthiness of the field, not its presence.
\<close>

theorem falsy_message_falls_back_to_status:
  assumes "fetch w (webhook_request (build_payload v (now w))) = Fulfilled r"
    and "json_body r = Fulfilled (JObj kvs)"
    and "\<not> (200 \<le> status r \<and> status r \<le> 299)"
    and "map_of kvs ''message'' = Some m"
    and "\<not> ToBoolean m"
  shows "error (state_after s (onSubmit w v)) = Some (''Erro: '' @ show_nat (status r)) \<and>
         (m = JStr [] \<or> m = JNull \<or> m = JBool False \<or> m = JNum 0)"
proof -
  have nok: "\<not> ok r" using assms(3) by (simp add: ok_def)
  have "failure_error w r (JObj kvs) = ([], Fulfilled (ErrorInstance (''Erro: '' @ show_nat (status r))))"
    using assms(4,5) by (intro failure_error_fallback) (simp_all add: message_field_def)
  then have "error (state_after s (onSubmit w v)) = Some (''Erro: '' @ show_nat (status r))"
    using onSubmit_not_ok [OF assms(1,2) nok, of "ErrorInstance (''Erro: '' @ show_nat (status r))"]
    by (simp add: run_simps errorMessage_def)
  moreover have "m = JStr [] \<or> m = JNull \<or> m = JBool False \<or> m = JNum 0"
    using assms(5) by (cases m) simp_all
  ultimately show ?thesis by simp
qed

theorem falsy_message_falls_back_to_status_witness:
  "fetch (mock_world (mock_response 404 (JObj [(''code'', JNum 7), (''message'', JNum 0)])))
      (webhook_request (build_payload scenario_values
         (now (mock_world (mock_response 404 (JObj [(''code'', JNum 7), (''message'', JNum 0)])))))) =
     Fulfilled \<lparr>status = 404, json_body = Fulfilled (JObj [(''code'', JNum 7), (''message'', JNum 0)])\<rparr> \<and>
   \<not> (200 \<le> (404::nat) \<and> (404::nat) \<le> 299) \<and>
   map_of [(''code'', JNum 7), (''message'', JNum 0)] ''message'' = Some (JNum 0) \<and>
   \<not> ToBoolean (JNum 0) \<and>
   error (state_after initial_state
      (onSubmit (mock_world (mock_response 404 (JObj [(''code'', JNum 7), (''message'', JNum 0)])))
         scenario_values)) = Some ''Erro: 404''"
proof -
  let ?B = "JObj [(''code'', JNum 7), (''message'', JNum 0)]"
  let ?w = "mock_world (mock_response 404 ?B)"
  let ?r = "\<lparr>status = 404, json_body = Fulfilled ?B\<rparr>"
  have h1: "fetch ?w (webhook_request (build_payload scenario_values (now ?w))) = Fulfilled ?r"
    by (simp add: mock_world_def mock_response_def)
  have h2: "json_body ?r = Fulfilled ?B" by simp
  have h3: "\<not> (200 \<le> status ?r \<and> status ?r \<le> 299)" by simp
  have h4: "map_of [(''code'', JNum 7), (''message'', JNum 0)] ''message'' = Some (JNum 0)" by simp
  have h5: "\<not> ToBoolean (JNum 0)" by simp
  have sh: "show_nat 404 = ''404''" by (simp add: show_nat.simps digit_char_def)
  show ?thesis
    using falsy_message_falls_back_to_status [OF h1 h2 h3 h4 h5, of initial_state] h1 h4
    by (simp add: sh)
qed

subsection \<open>A thrown value\<close>

lemma onSubmit_thrown:
  assumes "fetch w (webhook_request (build_payload v (now w))) = Rejected t \<or>
     (\<exists>r. fetch w (webhook_request (build_payload v (now w))) = Fulfilled r \<and> json_body r = Rejected t)"
  shows "onSubmit w v =
    (prologue (build_payload v (now w)) @
       [FetchCall (webhook_request (build_payload v (now w))), SetError (Some (errorMessage t)),
        Toast (failure_toast (errorMessage t)), SetIsSubmitting False], Fulfilled ())"
  using assms
proof
  assume "fetch w (webhook_request (build_payload v (now w))) = Rejected t"
  from onSubmit_caught [OF try_fetch_rejected [OF this]] show ?thesis .
next
  assume "\<exists>r. fetch w (webhook_request (build_payload v (now w))) = Fulfilled r \<and> json_body r = Rejected t"
  then obtain r where "fetch w (webhook_request (build_payload v (now w))) = Fulfilled r"
    and "json_body r = Rejected t" by blast
  from onSubmit_caught [OF try_json_rejected [OF this]] show ?thesis .
qed

lemma onSubmit_never_rejects: "snd (onSubmit w v) \<noteq> Rejected t"
  by (rule onSubmit_cases [of w v]) simp_all

text \<open>
  C6, as amended. Nothing thrown inside the handler escapes it: the promise it returns is
  never rejected. When \<^verbatim>\<open>fetch\<close> or \<^verbatim>\<open>response.json()\<close> rejects with a value \<open>t\<close>, the
  attempt completes with \<^verbatim>\<open>error\<close> set to the message of \<open>t\<close> if \<open>t\<close> is an instance of
  \<^verbatim>\<open>Error\<close>, whatever that message is, the empty string included, and to
  \<^verbatim>\<open>Erro desconhecido ao enviar\<close> if \<open>t\<close> is not an instance of \<^verbatim>\<open>Error\<close>;
  \<^verbatim>\<open>webhookResponse\<close> is \<^verbatim>\<open>null\<close> and \<^verbatim>\<open>isSubmitting\<close> is back to false.
\<close>

theorem thrown_value_recorded:
  "(\<forall>t'. snd (onSubmit w v) \<noteq> Rejected t') \<and>
   (fetch w (webhook_request (build_payload v (now w))) = Rejected t \<or>
    (\<exists>r. fetch w (webhook_request (build_payload v (now w))) = Fulfilled r \<and> json_body r = Rejected t)
    \<longrightarrow>
      snd (onSubmit w v) = Fulfilled () \<and>
      error (state_after s (onSubmit w v)) =
        Some (case t of ErrorInstance m \<Rightarrow> m | NonError \<Rightarrow> ''Erro desconhecido ao enviar'') \<and>
      webhookResponse (state_after s (onSubmit w v)) = JNull \<and>
      \<not> isSubmitting (state_after s (onSubmit w v)))"
proof (intro conjI allI impI)
  fix t' show "snd (onSubmit w v) \<noteq> Rejected t'" by (rule onSubmit_never_rejects)
next
  assume a: "fetch w (webhook_request (build_payload v (now w))) = Rejected t \<or>
    (\<exists>r. fetch w (webhook_request (build_payload v (now w))) = Fulfilled r \<and> json_body r = Rejected t)"
  note shape = onSubmit_thrown [OF a]
  show "snd (onSubmit w v) = Fulfilled ()" by (simp add: shape)
  show "error (state_after s (onSubmit w v)) =
        Some (case t of ErrorInstance m \<Rightarrow> m | NonError \<Rightarrow> ''Erro desconhecido ao enviar'')"
    by (simp add: shape run_simps errorMessage_def)
  show "webhookResponse (state_after s (onSubmit w v)) = JNull" by (simp add: shape run_simps)
  show "\<not> isSubmitting (state_after s (onSubmit w v))" by (simp add: shape run_simps)
qed

theorem thrown_value_recorded_witness:
  "fetch (mock_world (Rejected (ErrorInstance ''Failed to fetch'')))
     (webhook_request (build_payload scenario_values
        (now (mock_world (Rejected (ErrorInstance ''Failed to fetch'')))))) =
     Rejected (ErrorInstance ''Failed to fetch'') \<and>
   error (state_after initial_state
     (onSubmit (mock_world (Rejected (ErrorInstance ''Failed to fetch''))) scenario_values)) =
     Some ''Failed to fetch'' \<and>
   fetch (mock_world (Fulfilled \<lparr>status = 200, json_body = Rejected NonError\<rparr>))
     (webhook_request (build_payload scenario_values
        (now (mock_world (Fulfilled \<lparr>status = 200, json_body = Rejected NonError\<rparr>))))) =
     Fulfilled \<lparr>status = 200, json_body = Rejected NonError\<rparr> \<and>
   error (state_after initial_state
     (onSubmit (mock_world (Fulfilled \<lparr>status = 200, json_body = Rejected NonError\<rparr>)) scenario_values)) =
     Some ''Erro desconhecido ao enviar'' \<and>
   \<not> isSubmitting (state_after initial_state
     (onSubmit (mock_world (Rejected (ErrorInstance ''Failed to fetch''))) scenario_values))"
  using thrown_value_recorded [of "mock_world (Rejected (ErrorInstance ''Failed to fetch''))"
      scenario_values "ErrorInstance ''Failed to fetch''" initial_state]
    thrown_value_recorded [of "mock_world (Fulfilled \<lparr>status = 200, json_body = Rejected NonError\<rparr>)"
      scenario_values NonError initial_state]
  by (simp add: mock_world_def)

text \<open>
  The claim as first stated fails: for a rejection with an \<^verbatim>\<open>Error\<close> whose message is
  empty, line 119 takes the instance test and stores the empty message, not the generic
  string.
\<close>

theorem empty_message_counterexample:
  "fetch (mock_world (Rejected (ErrorInstance [])))
     (webhook_request (build_payload scenario_values (now (mock_world (Rejected (ErrorInstance [])))))) =
     Rejected (ErrorInstance []) \<and>
   error (state_after initial_state (onSubmit (mock_world (Rejected (ErrorInstance []))) scenario_values)) =
     Some [] \<and>
   error (state_after initial_state (onSubmit (mock_world (Rejected (ErrorInstance []))) scenario_values)) \<noteq>
     Some ''Erro desconhecido ao enviar''"
proof -
  let ?w = "mock_world (Rejected (ErrorInstance []))"
  have h: "fetch ?w (webhook_request (build_payload scenario_values (now ?w))) = Rejected (ErrorInstance [])"
    by (simp add: mock_world_def)
  from onSubmit_thrown [of ?w scenario_values "ErrorInstance []"] h
  have "error (state_after initial_state (onSubmit ?w scenario_values)) = Some []"
    by (simp add: run_simps errorMessage_def)
  with h show ?thesis by simp
qed

subsection \<open>The mock world\<close>

lemma scenario_values_valid: "formSchema_issues scenario_values = []"
  by (simp add: formSchema_issues_def z_min_def z_regex_def recipientPhone_regex_iff
      prefix_55_then_10_to_11_digits_def scenario_values_def is_digit_def)

lemma mock_fetch: "fetch (mock_world p) q = p"
  by (simp add: mock_world_def)

lemma mock_onSubmit_ok:
  "onSubmit (mock_world (mock_response 200 d)) v =
    (prologue (build_payload v 1700000000000) @
       [FetchCall (webhook_request (build_payload v 1700000000000)), SetWebhookResponse d,
        Toast success_toast, SetIsSubmitting False], Fulfilled ())"
  using onSubmit_success [of "mock_world (mock_response 200 d)" v
      "\<lparr>status = 200, json_body = Fulfilled d\<rparr>" d]
  by (simp add: mock_fetch mock_response_def ok_def) (simp add: mock_world_def)

lemma mock_onSubmit_pending:
  "onSubmit (mock_world Unsettled) v =
    (prologue (build_payload v 1700000000000) @
       [FetchCall (webhook_request (build_payload v 1700000000000))], Unsettled)"
  using onSubmit_suspended [OF try_fetch_unsettled, of "mock_world Unsettled" v]
  by (simp add: mock_fetch) (simp add: mock_world_def)

lemma mock_onSubmit_thrown:
  "onSubmit (mock_world (Rejected t)) v =
    (prologue (build_payload v 1700000000000) @
       [FetchCall (webhook_request (build_payload v 1700000000000)), SetError (Some (errorMessage t)),
        Toast (failure_toast (errorMessage t)), SetIsSubmitting False], Fulfilled ())"
  using onSubmit_thrown [of "mock_world (Rejected t)" v t]
  by (simp add: mock_fetch) (simp add: mock_world_def)

subsection \<open>The submitting flag\<close>

lemma handleSubmit_cases [case_names blocked submitted]:
  obtains (blocked) "formSchema_issues v \<noteq> []" "handleSubmit w v = ([], Fulfilled ())"
  | (submitted) "formSchema_issues v = []" "handleSubmit w v = onSubmit w v"
  by (cases "formSchema_issues v = []") (auto simp: handleSubmit_def formSchema_def ret_def)

lemma call_resolves_paths:
  "call_resolves w v =
     ((\<exists>r d. fetch w (webhook_request (build_payload v (now w))) = Fulfilled r \<and>
             json_body r = Fulfilled d) \<or>
      (\<exists>t. fetch w (webhook_request (build_payload v (now w))) = Rejected t) \<or>
      (\<exists>r t. fetch w (webhook_request (build_payload v (now w))) = Fulfilled r \<and>
             json_body r = Rejected t))"
  by (auto simp add: call_resolves_def split: promise.splits)

lemma onSubmit_unresolved:
  assumes "\<not> call_resolves w v"
  shows "onSubmit w v =
    (prologue (build_payload v (now w)) @
       [FetchCall (webhook_request (build_payload v (now w)))], Unsettled)"
proof (cases "fetch w (webhook_request (build_payload v (now w)))")
  case (Fulfilled r)
  then have "json_body r = Unsettled"
    using assms by (simp add: call_resolves_def split: promise.splits)
  from onSubmit_suspended [OF try_json_unsettled [OF Fulfilled this]] show ?thesis .
next
  case (Rejected t)
  then show ?thesis using assms by (simp add: call_resolves_def)
next
  case Unsettled
  from onSubmit_suspended [OF try_fetch_unsettled [OF Unsettled]] show ?thesis .
qed

lemma onSubmit_resolved:
  assumes "call_resolves w v"
  shows "\<exists>mid. onSubmit w v =
    (prologue (build_payload v (now w)) @
       [FetchCall (webhook_request (build_payload v (now w)))] @ mid @ [SetIsSubmitting False],
     Fulfilled ()) \<and> list_all (\<lambda>e. \<forall>b. e \<noteq> SetIsSubmitting b) mid"
proof (rule onSubmit_cases [of w v])
  assume "onSubmit w v =
      (prologue (build_payload v (now w)) @
         [FetchCall (webhook_request (build_payload v (now w)))], Unsettled)"
  moreover have "snd (onSubmit w v) \<noteq> Unsettled"
  proof (cases "fetch w (webhook_request (build_payload v (now w)))")
    case (Fulfilled r)
    show ?thesis
    proof (cases "json_body r")
      case (Fulfilled d)
      note b = this
      show ?thesis
      proof (cases "ok r")
        case True
        from onSubmit_success [OF \<open>fetch w (webhook_request (build_payload v (now w))) = Fulfilled r\<close> b True]
        show ?thesis by simp
      next
        case False
        obtain t where "(bind (failure_error w r d) throw :: unit action) = ([], Rejected t)"
          by (rule failure_throws)
        from onSubmit_caught [OF try_not_ok
            [OF \<open>fetch w (webhook_request (build_payload v (now w))) = Fulfilled r\<close> b False this]]
        show ?thesis by simp
      qed
    next
      case (Rejected t)
      from onSubmit_caught [OF try_json_rejected
          [OF \<open>fetch w (webhook_request (build_payload v (now w))) = Fulfilled r\<close> Rejected]]
      show ?thesis by simp
    next
      case Unsettled
      then show ?thesis using assms Fulfilled by (simp add: call_resolves_def)
    qed
  next
    case (Rejected t)
    from onSubmit_caught [OF try_fetch_rejected [OF Rejected]] show ?thesis by simp
  next
    case Unsettled
    then show ?thesis using assms by (simp add: call_resolves_def)
  qed
  ultimately show ?thesis by simp
next
  fix t
  assume "onSubmit w v =
      (prologue (build_payload v (now w)) @
         [FetchCall (webhook_request (build_payload v (now w))), SetError (Some (errorMessage t)),
          Toast (failure_toast (errorMessage t)), SetIsSubmitting False], Fulfilled ())"
  then show ?thesis
    by (intro exI [of _ "[SetError (Some (errorMessage t)), Toast (failure_toast (errorMessage t))]"]) simp
next
  fix r d
  assume "onSubmit w v =
      (prologue (build_payload v (now w)) @
         [FetchCall (webhook_request (build_payload v (now w))), SetWebhookResponse d,
          Toast success_toast, SetIsSubmitting False], Fulfilled ())"
  then show ?thesis
    by (intro exI [of _ "[SetWebhookResponse d, Toast success_toast]"]) simp
qed

lemma resolved_attempt:
  assumes "call_resolves w v"
  shows "snd (onSubmit w v) = Fulfilled () \<and>
         list_all isSubmitting (butlast (states_along s (fst (onSubmit w v)))) \<and>
         last (fst (onSubmit w v)) = SetIsSubmitting False \<and>
         \<not> isSubmitting (state_after s (onSubmit w v))"
proof -
  have u: "snd (onSubmit w v) \<noteq> Unsettled"
    using onSubmit_resolved [OF assms] by auto
  show ?thesis
    using u by (rule_tac onSubmit_cases [of w v]) (simp_all add: run_simps)
qed

lemma unresolved_attempt:
  assumes "\<not> call_resolves w v"
  shows "snd (onSubmit w v) = Unsettled \<and>
         list_all isSubmitting (states_along s (fst (onSubmit w v))) \<and>
         isSubmitting (state_after s (onSubmit w v))"
  by (simp add: onSubmit_unresolved [OF assms] run_simps)

lemma session_resolved_not_submitting:
  assumes "\<not> isSubmitting s"
    and "list_all (\<lambda>a. formSchema_issues (snd a) \<noteq> [] \<or> call_resolves (fst a) (snd a)) attempts"
  shows "\<not> isSubmitting (foldl (\<lambda>st a. state_after st (handleSubmit (fst a) (snd a))) s attempts)"
  using assms
proof (induction attempts arbitrary: s)
  case Nil
  then show ?case by simp
next
  case (Cons a attempts)
  have "\<not> isSubmitting (state_after s (handleSubmit (fst a) (snd a)))"
  proof (rule handleSubmit_cases [of "snd a" "fst a"])
    assume "handleSubmit (fst a) (snd a) = ([], Fulfilled ())"
    then show ?thesis using Cons.prems(1) by (simp add: run_simps)
  next
    assume "formSchema_issues (snd a) = []" and h: "handleSubmit (fst a) (snd a) = onSubmit (fst a) (snd a)"
    then have "call_resolves (fst a) (snd a)" using Cons.prems(2) by simp
    from resolved_attempt [OF this, of s] h show ?thesis by simp
  qed
  then show ?case using Cons.IH Cons.prems(2) by simp
qed

lemma mock_resolves: "call_resolves (mock_world p) v = (case p of
    Unsettled \<Rightarrow> False | Rejected t \<Rightarrow> True
  | Fulfilled r \<Rightarrow> (case json_body r of Unsettled \<Rightarrow> False | _ \<Rightarrow> True))"
  by (simp add: call_resolves_def mock_fetch)

text \<open>
  C7. The network call of an attempt resolves exactly when \<^verbatim>\<open>fetch\<close> and \<^verbatim>\<open>json()\<close>
  both fulfil (a success or a failure status), or \<^verbatim>\<open>fetch\<close> rejects, or \<^verbatim>\<open>json()\<close>
  rejects. The first thing an attempt does is set \<^verbatim>\<open>isSubmitting\<close> to true. Whenever the
  network call resolves, on any of these paths, the attempt ends normally, every state
  before the last has \<^verbatim>\<open>isSubmitting\<close> true, the last effect is the finalizer's
  \<^verbatim>\<open>setIsSubmitting(false)\<close>, and the final state has \<^verbatim>\<open>isSubmitting\<close> false. As long as
  the network call does not resolve, the attempt is suspended and every state it has
  gone through, the current one included, has \<^verbatim>\<open>isSubmitting\<close> true. The flag is false
  when the component mounts, and after any series of submit clicks each of which was
  either blocked by validation or had its network call resolve.
\<close>

theorem isSubmitting_brackets_the_attempt:
  "call_resolves w v =
     ((\<exists>r d. fetch w (webhook_request (build_payload v (now w))) = Fulfilled r \<and>
             json_body r = Fulfilled d) \<or>
      (\<exists>t. fetch w (webhook_request (build_payload v (now w))) = Rejected t) \<or>
      (\<exists>r t. fetch w (webhook_request (build_payload v (now w))) = Fulfilled r \<and>
             json_body r = Rejected t)) \<and>
   hd (fst (onSubmit w v)) = SetIsSubmitting True \<and>
   (call_resolves w v \<longrightarrow>
      snd (onSubmit w v) = Fulfilled () \<and>
      list_all isSubmitting (butlast (states_along s (fst (onSubmit w v)))) \<and>
      last (fst (onSubmit w v)) = SetIsSubmitting False \<and>
      \<not> isSubmitting (state_after s (onSubmit w v))) \<and>
   (\<not> call_resolves w v \<longrightarrow>
      snd (onSubmit w v) = Unsettled \<and>
      list_all isSubmitting (states_along s (fst (onSubmit w v))) \<and>
      isSubmitting (state_after s (onSubmit w v))) \<and>
   \<not> isSubmitting initial_state \<and>
   (list_all (\<lambda>a. formSchema_issues (snd a) \<noteq> [] \<or> call_resolves (fst a) (snd a)) attempts \<longrightarrow>
      \<not> isSubmitting (session initial_state attempts))"
proof -
  have first: "hd (fst (onSubmit w v)) = SetIsSubmitting True"
    by (rule onSubmit_cases [of w v]) (simp_all add: prologue_def)
  have init: "\<not> isSubmitting initial_state" by (simp add: initial_state_def)
  have between:
    "list_all (\<lambda>a. formSchema_issues (snd a) \<noteq> [] \<or> call_resolves (fst a) (snd a)) attempts \<longrightarrow>
      \<not> isSubmitting (session initial_state attempts)"
    unfolding session_def using session_resolved_not_submitting [OF init] by blast
  show ?thesis
    using call_resolves_paths [of w v] first resolved_attempt [of w v s] unresolved_attempt [of w v s]
      init between
    by blast
qed

theorem isSubmitting_brackets_the_attempt_witness:
  "\<not> call_resolves (mock_world Unsettled) scenario_values \<and>
   snd (onSubmit (mock_world Unsettled) scenario_values) = Unsettled \<and>
   isSubmitting (state_after initial_state (onSubmit (mock_world Unsettled) scenario_values)) \<and>
   call_resolves (mock_world (Rejected NonError)) scenario_values \<and>
   snd (onSubmit (mock_world (Rejected NonError)) scenario_values) = Fulfilled () \<and>
   last (fst (onSubmit (mock_world (Rejected NonError)) scenario_values)) = SetIsSubmitting False \<and>
   \<not> isSubmitting (state_after initial_state (onSubmit (mock_world (Rejected NonError)) scenario_values)) \<and>
   call_resolves (mock_world (mock_response 500 (JObj [(''message'', JStr ''internal failure'')])))
     scenario_values \<and>
   \<not> isSubmitting (state_after initial_state
     (onSubmit (mock_world (mock_response 500 (JObj [(''message'', JStr ''internal failure'')])))
        scenario_values)) \<and>
   call_resolves (mock_world (mock_response 200 (JObj [(''message'', JStr ''ok'')]))) scenario_values \<and>
   \<not> isSubmitting (state_after initial_state
     (onSubmit (mock_world (mock_response 200 (JObj [(''message'', JStr ''ok'')]))) scenario_values)) \<and>
   list_all (\<lambda>a. formSchema_issues (snd a) \<noteq> [] \<or> call_resolves (fst a) (snd a))
     [(mock_world (Rejected NonError), scenario_values),
      (mock_world Unsettled, defaultValues),
      (mock_world (mock_response 200 JNull), scenario_values)] \<and>
   \<not> isSubmitting (session initial_state
     [(mock_world (Rejected NonError), scenario_values),
      (mock_world Unsettled, defaultValues),
      (mock_world (mock_response 200 JNull), scenario_values)])"
proof -
  have u: "\<not> call_resolves (mock_world Unsettled) scenario_values"
    by (simp add: mock_resolves)
  have t: "call_resolves (mock_world (Rejected NonError)) scenario_values"
    by (simp add: mock_resolves)
  have f: "call_resolves (mock_world (mock_response 500 (JObj [(''message'', JStr ''internal failure'')])))
     scenario_values"
    by (simp add: mock_resolves mock_response_def)
  have k: "call_resolves (mock_world (mock_response 200 (JObj [(''message'', JStr ''ok'')]))) scenario_values"
    by (simp add: mock_resolves mock_response_def)
  have a: "list_all (\<lambda>a. formSchema_issues (snd a) \<noteq> [] \<or> call_resolves (fst a) (snd a))
     [(mock_world (Rejected NonError), scenario_values),
      (mock_world Unsettled, defaultValues),
      (mock_world (mock_response 200 JNull), scenario_values)]"
    by (simp add: mock_resolves mock_response_def formSchema_issues_def z_min_def defaultValues_def)
  show ?thesis
    using isSubmitting_brackets_the_attempt [of "mock_world Unsettled" scenario_values initial_state
        "[(mock_world (Rejected NonError), scenario_values),
          (mock_world Unsettled, defaultValues),
          (mock_world (mock_response 200 JNull), scenario_values)]"]
      isSubmitting_brackets_the_attempt [of "mock_world (Rejected NonError)" scenario_values
        initial_state "[]"]
      isSubmitting_brackets_the_attempt
        [of "mock_world (mock_response 500 (JObj [(''message'', JStr ''internal failure'')]))"
          scenario_values initial_state "[]"]
      isSubmitting_brackets_the_attempt
        [of "mock_world (mock_response 200 (JObj [(''message'', JStr ''ok'')]))"
          scenario_values initial_state "[]"]
      u t f k a
    by blast
qed

subsection \<open>The payload is stored before it is sent\<close>

text \<open>
  C8. In every attempt the effects begin with the four resets, then
  \<^verbatim>\<open>setSentPayload(payload)\<close>, then the one call of \<^verbatim>\<open>fetch\<close>, a POST whose body is that
  payload; no other call of \<^verbatim>\<open>fetch\<close> follows. From the write on, every state of the
  attempt holds the payload in \<^verbatim>\<open>sentPayload\<close>, and so does the state the attempt leaves,
  however the network call turns out.
\<close>

theorem sentPayload_written_before_fetch:
  "(\<exists>rest.
      fst (onSubmit w v) =
        [SetIsSubmitting True, SetError None, SetSentPayload JNull, SetWebhookResponse JNull,
         SetSentPayload (build_payload v (now w)),
         FetchCall (webhook_request (build_payload v (now w)))] @ rest \<and>
      \<not> list_ex is_fetch rest) \<and>
   http_method (webhook_request (build_payload v (now w))) = ''POST'' \<and>
   body (webhook_request (build_payload v (now w))) = build_payload v (now w) \<and>
   list_all (\<lambda>st. sentPayload st = build_payload v (now w))
     (drop 4 (states_along s (fst (onSubmit w v)))) \<and>
   sentPayload (state_after s (onSubmit w v)) = build_payload v (now w)"
proof -
  have shape: "\<exists>rest.
      fst (onSubmit w v) =
        [SetIsSubmitting True, SetError None, SetSentPayload JNull, SetWebhookResponse JNull,
         SetSentPayload (build_payload v (now w)),
         FetchCall (webhook_request (build_payload v (now w)))] @ rest \<and>
      \<not> list_ex is_fetch rest"
    by (rule onSubmit_cases [of w v]) (simp_all add: prologue_def is_fetch_def)
  have later: "list_all (\<lambda>st. sentPayload st = build_payload v (now w))
     (drop 4 (states_along s (fst (onSubmit w v))))"
    by (rule onSubmit_cases [of w v]) (simp_all add: prologue_def)
  have final: "sentPayload (state_after s (onSubmit w v)) = build_payload v (now w)"
    by (rule onSubmit_cases [of w v]) (simp_all add: run_simps)
  show ?thesis using shape later final by (simp add: webhook_request_def)
qed

theorem sentPayload_written_before_fetch_witness:
  "take 6 (fst (onSubmit (mock_world (Rejected NonError)) scenario_values)) =
     [SetIsSubmitting True, SetError None, SetSentPayload JNull, SetWebhookResponse JNull,
      SetSentPayload (build_payload scenario_values 1700000000000),
      FetchCall (webhook_request (build_payload scenario_values 1700000000000))] \<and>
   sentPayload (state_after initial_state (onSubmit (mock_world (Rejected NonError)) scenario_values)) =
     build_payload scenario_values 1700000000000"
  using sentPayload_written_before_fetch [of "mock_world (Rejected NonError)" scenario_values initial_state]
  by (auto simp add: mock_world_def)

subsection \<open>The life cycle of the four cells\<close>

text \<open>
  C9, as amended. After the first four effects of an attempt \<^verbatim>\<open>isSubmitting\<close> is true
  and \<^verbatim>\<open>error\<close>, \<^verbatim>\<open>sentPayload\<close> and \<^verbatim>\<open>webhookResponse\<close> are \<^verbatim>\<open>null\<close>. While the request
  is pending, \<^verbatim>\<open>webhookResponse\<close> and \<^verbatim>\<open>error\<close> are \<^verbatim>\<open>null\<close> and \<^verbatim>\<open>isSubmitting\<close> is
  true. When the attempt has ended, either \<^verbatim>\<open>error\<close> is a string and \<^verbatim>\<open>webhookResponse\<close>
  is \<^verbatim>\<open>null\<close>, or \<^verbatim>\<open>error\<close> is \<^verbatim>\<open>null\<close> and \<^verbatim>\<open>webhookResponse\<close> is the parsed body of
  a response with a success status; so exactly one of the two is non-null unless that
  body is the JSON value \<^verbatim>\<open>null\<close>.
\<close>

theorem attempt_lifecycle:
  "run_effects s (take 4 (fst (onSubmit w v))) =
     \<lparr>isSubmitting = True, sentPayload = JNull, webhookResponse = JNull, error = None\<rparr> \<and>
   (snd (onSubmit w v) = Unsettled \<longrightarrow>
      isSubmitting (state_after s (onSubmit w v)) \<and>
      webhookResponse (state_after s (onSubmit w v)) = JNull \<and>
      error (state_after s (onSubmit w v)) = None) \<and>
   (snd (onSubmit w v) \<noteq> Unsettled \<longrightarrow>
      (error (state_after s (onSubmit w v)) \<noteq> None \<and>
       webhookResponse (state_after s (onSubmit w v)) = JNull) \<or>
      (error (state_after s (onSubmit w v)) = None \<and>
       (\<exists>r. fetch w (webhook_request (build_payload v (now w))) = Fulfilled r \<and> ok r \<and>
            json_body r = Fulfilled (webhookResponse (state_after s (onSubmit w v)))))) \<and>
   (snd (onSubmit w v) \<noteq> Unsettled \<and>
    \<not> (\<exists>r. fetch w (webhook_request (build_payload v (now w))) = Fulfilled r \<and> ok r \<and>
            json_body r = Fulfilled JNull) \<longrightarrow>
      (error (state_after s (onSubmit w v)) \<noteq> None) \<noteq>
      (webhookResponse (state_after s (onSubmit w v)) \<noteq> JNull))"
proof -
  let ?final = "state_after s (onSubmit w v)"
  have reset: "run_effects s (take 4 (fst (onSubmit w v))) =
     \<lparr>isSubmitting = True, sentPayload = JNull, webhookResponse = JNull, error = None\<rparr>"
    by (rule onSubmit_cases [of w v]) (simp_all add: run_simps)
  have pending: "snd (onSubmit w v) = Unsettled \<longrightarrow>
      isSubmitting ?final \<and> webhookResponse ?final = JNull \<and> error ?final = None"
    by (rule onSubmit_cases [of w v]) (simp_all add: run_simps)
  have ended: "snd (onSubmit w v) \<noteq> Unsettled \<longrightarrow>
      (error ?final \<noteq> None \<and> webhookResponse ?final = JNull) \<or>
      (error ?final = None \<and>
       (\<exists>r. fetch w (webhook_request (build_payload v (now w))) = Fulfilled r \<and> ok r \<and>
            json_body r = Fulfilled (webhookResponse ?final)))"
    by (rule onSubmit_cases [of w v]) (simp_all add: run_simps)
  then have one: "snd (onSubmit w v) \<noteq> Unsettled \<and>
    \<not> (\<exists>r. fetch w (webhook_request (build_payload v (now w))) = Fulfilled r \<and> ok r \<and>
            json_body r = Fulfilled JNull) \<longrightarrow>
      (error ?final \<noteq> None) \<noteq> (webhookResponse ?final \<noteq> JNull)"
    by metis
  show ?thesis using reset pending ended one by blast
qed

theorem attempt_lifecycle_witness:
  "run_effects initial_state
     (take 4 (fst (onSubmit (mock_world (mock_response 200 (JObj [(''message'', JStr ''ok'')]))) scenario_values))) =
     \<lparr>isSubmitting = True, sentPayload = JNull, webhookResponse = JNull, error = None\<rparr> \<and>
   snd (onSubmit (mock_world Unsettled) scenario_values) = Unsettled \<and>
   isSubmitting (state_after initial_state (onSubmit (mock_world Unsettled) scenario_values)) \<and>
   error (state_after initial_state (onSubmit (mock_world Unsettled) scenario_values)) = None \<and>
   snd (onSubmit (mock_world (mock_response 200 (JObj [(''message'', JStr ''ok'')]))) scenario_values) \<noteq> Unsettled \<and>
   (error (state_after initial_state
      (onSubmit (mock_world (mock_response 200 (JObj [(''message'', JStr ''ok'')]))) scenario_values)) \<noteq> None) \<noteq>
   (webhookResponse (state_after initial_state
      (onSubmit (mock_world (mock_response 200 (JObj [(''message'', JStr ''ok'')]))) scenario_values)) \<noteq> JNull)"
proof -
  let ?w = "mock_world (mock_response 200 (JObj [(''message'', JStr ''ok'')]))"
  have p: "snd (onSubmit (mock_world Unsettled) scenario_values) = Unsettled"
    by (simp add: mock_onSubmit_pending)
  have e: "snd (onSubmit ?w scenario_values) \<noteq> Unsettled"
    by (simp add: mock_onSubmit_ok)
  have n: "\<not> (\<exists>r. fetch ?w (webhook_request (build_payload scenario_values (now ?w))) = Fulfilled r \<and>
            ok r \<and> json_body r = Fulfilled JNull)"
    by (auto simp add: mock_fetch mock_response_def)
  show ?thesis
    using attempt_lifecycle [of initial_state ?w scenario_values]
      attempt_lifecycle [of initial_state "mock_world Unsettled" scenario_values] p e n
    by blast
qed

text \<open>
  The claim as first stated fails: a response with status 200 whose body is the JSON
  value \<^verbatim>\<open>null\<close> ends the attempt with both \<^verbatim>\<open>webhookResponse\<close> and \<^verbatim>\<open>error\<close>
  \<^verbatim>\<open>null\<close>.
\<close>

theorem null_body_counterexample:
  "snd (onSubmit (mock_world (mock_response 200 JNull)) scenario_values) = Fulfilled () \<and>
   webhookResponse (state_after initial_state
     (onSubmit (mock_world (mock_response 200 JNull)) scenario_values)) = JNull \<and>
   error (state_after initial_state
     (onSubmit (mock_world (mock_response 200 JNull)) scenario_values)) = None"
  by (simp add: mock_onSubmit_ok run_simps)

subsection \<open>What the schema lets through\<close>

lemma form_steps_selects:
  assumes "template v = [] \<or> template v \<in> set (map value TEMPLATES)"
    and "phoneNumberId v = [] \<or> phoneNumberId v \<in> set (map value PHONE_IDS)"
  shows "(template (foldl form_step v evs) = [] \<or>
          template (foldl form_step v evs) \<in> set (map value TEMPLATES)) \<and>
         (phoneNumberId (foldl form_step v evs) = [] \<or>
          phoneNumberId (foldl form_step v evs) \<in> set (map value PHONE_IDS))"
  using assms
proof (induction evs arbitrary: v)
  case Nil
  then show ?case by simp
next
  case (Cons e evs)
  have "(template (form_step v e) = [] \<or> template (form_step v e) \<in> set (map value TEMPLATES)) \<and>
        (phoneNumberId (form_step v e) = [] \<or> phoneNumberId (form_step v e) \<in> set (map value PHONE_IDS))"
    using Cons.prems by (cases e) auto
  then show ?case using Cons.IH [of "form_step v e"] by simp
qed

lemma formSchema_issues_empty:
  "(formSchema_issues v = []) =
     (template v \<noteq> [] \<and> phoneNumberId v \<noteq> [] \<and> recipientPhone v \<noteq> [] \<and>
      prefix_55_then_10_to_11_digits (recipientPhone v))"
  by (auto simp add: formSchema_issues_def z_min_def z_regex_def recipientPhone_regex_iff)

lemma onSubmit_fetches:
  "FetchCall (webhook_request (build_payload v (now w))) \<in> set (fst (onSubmit w v))"
  by (rule onSubmit_cases [of w v]) simp_all

lemma field_issues_selects:
  "field_issues Template v = (if template v = [] then [SelecioneTemplate] else [])"
  "field_issues PhoneNumberId v = (if phoneNumberId v = [] then [SelecioneIdTelefone] else [])"
  by (simp_all add: field_issues_def formSchema_issues_def z_min_def z_regex_def)

lemma handleSubmit_blocked:
  "template v = [] \<or> phoneNumberId v = [] \<Longrightarrow>
   (\<exists>issues. formSchema v = Inl issues) \<and> handleSubmit w v = ([], Fulfilled ())"
  by (auto simp add: handleSubmit_def formSchema_def formSchema_issues_def z_min_def ret_def)

lemma handleSubmit_runs:
  "fst (handleSubmit w v) \<noteq> [] \<Longrightarrow> template v \<noteq> [] \<and> phoneNumberId v \<noteq> []"
  using handleSubmit_blocked [of v w] by auto

text \<open>
  C3. The field values are those the form can hold: the values reached from the default
  values by picking items of the two select controls and editing the recipient input.
  For such values, a submit runs the handler (and so makes the network call) only when
  \<^verbatim>\<open>template\<close> is one of the configured template values and \<^verbatim>\<open>phoneNumberId\<close> is one
  of the configured phone-ID values. A \<^verbatim>\<open>template\<close> outside the configured list fails
  validation with the issue of the template field, and the submit is blocked: the
  handler is not called and nothing is done. The same holds of a \<^verbatim>\<open>phoneNumberId\<close>
  outside its list.
\<close>

theorem submission_needs_configured_selections:
  "(fst (handleSubmit w (form_after evs)) \<noteq> [] \<longrightarrow>
      template (form_after evs) \<in> set (map value TEMPLATES) \<and>
      phoneNumberId (form_after evs) \<in> set (map value PHONE_IDS)) \<and>
   ((\<exists>q. FetchCall q \<in> set (fst (handleSubmit w (form_after evs)))) \<longrightarrow>
      template (form_after evs) \<in> set (map value TEMPLATES) \<and>
      phoneNumberId (form_after evs) \<in> set (map value PHONE_IDS)) \<and>
   (template (form_after evs) \<notin> set (map value TEMPLATES) \<longrightarrow>
      field_issues Template (form_after evs) = [SelecioneTemplate] \<and>
      (\<exists>issues. formSchema (form_after evs) = Inl issues) \<and>
      handleSubmit w (form_after evs) = ([], Fulfilled ())) \<and>
   (phoneNumberId (form_after evs) \<notin> set (map value PHONE_IDS) \<longrightarrow>
      field_issues PhoneNumberId (form_after evs) = [SelecioneIdTelefone] \<and>
      (\<exists>issues. formSchema (form_after evs) = Inl issues) \<and>
      handleSubmit w (form_after evs) = ([], Fulfilled ()))"
proof -
  let ?v = "form_after evs"
  have sel: "(template ?v = [] \<or> template ?v \<in> set (map value TEMPLATES)) \<and>
             (phoneNumberId ?v = [] \<or> phoneNumberId ?v \<in> set (map value PHONE_IDS))"
    unfolding form_after_def by (rule form_steps_selects) (simp_all add: defaultValues_def)
  have runs: "fst (handleSubmit w ?v) \<noteq> [] \<longrightarrow>
      template ?v \<in> set (map value TEMPLATES) \<and> phoneNumberId ?v \<in> set (map value PHONE_IDS)"
    using sel handleSubmit_runs [of w ?v] by blast
  have fetches: "(\<exists>q. FetchCall q \<in> set (fst (handleSubmit w ?v))) \<longrightarrow>
      template ?v \<in> set (map value TEMPLATES) \<and> phoneNumberId ?v \<in> set (map value PHONE_IDS)"
    using runs by fastforce
  have t: "template ?v \<notin> set (map value TEMPLATES) \<longrightarrow>
      field_issues Template ?v = [SelecioneTemplate] \<and>
      (\<exists>issues. formSchema ?v = Inl issues) \<and> handleSubmit w ?v = ([], Fulfilled ())"
    using sel handleSubmit_blocked [of ?v w] by (auto simp add: field_issues_selects)
  have p: "phoneNumberId ?v \<notin> set (map value PHONE_IDS) \<longrightarrow>
      field_issues PhoneNumberId ?v = [SelecioneIdTelefone] \<and>
      (\<exists>issues. formSchema ?v = Inl issues) \<and> handleSubmit w ?v = ([], Fulfilled ())"
    using sel handleSubmit_blocked [of ?v w] by (auto simp add: field_issues_selects)
  show ?thesis using runs fetches t p by blast
qed

theorem submission_needs_configured_selections_witness:
  "form_after [PickTemplate 0, PickPhoneId 1, EditRecipient ''+55 (99) 99999-9999''] =
     \<lparr>template = ''hello_world'', phoneNumberId = ''123456789012345'',
      recipientPhone = ''5599999999999''\<rparr> \<and>
   fst (handleSubmit (mock_world Unsettled)
     (form_after [PickTemplate 0, PickPhoneId 1, EditRecipient ''+55 (99) 99999-9999''])) \<noteq> [] \<and>
   template (form_after [PickTemplate 0, PickPhoneId 1, EditRecipient ''+55 (99) 99999-9999''])
     \<in> set (map value TEMPLATES) \<and>
   phoneNumberId (form_after [PickTemplate 0, PickPhoneId 1, EditRecipient ''+55 (99) 99999-9999''])
     \<in> set (map value PHONE_IDS) \<and>
   template (form_after [PickPhoneId 0, EditRecipient ''5599999999999'']) \<notin> set (map value TEMPLATES) \<and>
   handleSubmit (mock_world Unsettled) (form_after [PickPhoneId 0, EditRecipient ''5599999999999'']) =
     ([], Fulfilled ())"
proof -
  let ?evs = "[PickTemplate 0, PickPhoneId 1, EditRecipient ''+55 (99) 99999-9999'']"
  let ?v = "\<lparr>template = ''hello_world'', phoneNumberId = ''123456789012345'',
      recipientPhone = ''5599999999999''\<rparr>"
  let ?evs' = "[PickPhoneId 0, EditRecipient ''5599999999999'']"
  let ?v' = "\<lparr>template = [], phoneNumberId = ''785310631336841'',
      recipientPhone = ''5599999999999''\<rparr>"
  have f: "form_after ?evs = ?v"
    by (simp add: form_after_def defaultValues_def TEMPLATES_def PHONE_IDS_def
        recipient_onChange_filter is_digit_def)
  have f': "form_after ?evs' = ?v'"
    by (simp add: form_after_def defaultValues_def TEMPLATES_def PHONE_IDS_def
        recipient_onChange_filter is_digit_def)
  have i: "formSchema_issues ?v = []"
    by (simp add: formSchema_issues_def z_min_def z_regex_def recipientPhone_regex_iff
        prefix_55_then_10_to_11_digits_def is_digit_def)
  have g: "fst (handleSubmit (mock_world Unsettled) ?v) \<noteq> []"
    by (simp add: handleSubmit_def formSchema_def i mock_onSubmit_pending prologue_def)
  have n: "template ?v' \<notin> set (map value TEMPLATES)"
    by (simp add: TEMPLATES_def)
  note a = submission_needs_configured_selections [of "mock_world Unsettled" ?evs, unfolded f]
  note b = submission_needs_configured_selections [of "mock_world Unsettled" ?evs', unfolded f']
  have a': "template ?v \<in> set (map value TEMPLATES) \<and> phoneNumberId ?v \<in> set (map value PHONE_IDS)"
    using a g by blast
  have b': "handleSubmit (mock_world Unsettled) ?v' = ([], Fulfilled ())"
    using b n by blast
  show ?thesis unfolding f f' using g n a' b' by blast
qed

subsection \<open>The ISO string of a date\<close>

lemma div_lower:
  fixes a c :: int
  assumes "0 < c"
  shows "c * (a div c) \<le> a"
proof -
  have "a = c * (a div c) + a mod c" by simp
  moreover have "0 \<le> a mod c" using assms by simp
  ultimately show ?thesis by linarith
qed

lemma div_upper:
  fixes a c :: int
  assumes "0 < c"
  shows "a < c * (a div c) + c"
proof -
  have "a = c * (a div c) + a mod c" by simp
  moreover have "a mod c < c" using assms by simp
  ultimately show ?thesis by linarith
qed

lemma DayFromYear_lower: "146097 * (y - 1970) - 607 < 400 * DayFromYear y"
  unfolding DayFromYear_def
  using div_lower [of 4 "y - 1969", simplified] div_upper [of 4 "y - 1969", simplified] div_lower [of 100 "y - 1901", simplified] div_upper [of 100 "y - 1901", simplified]
    div_lower [of 400 "y - 1601", simplified] div_upper [of 400 "y - 1601", simplified]
  by (simp add: algebra_simps)

lemma DayFromYear_upper: "400 * DayFromYear y < 146097 * (y - 1970) + 594"
  unfolding DayFromYear_def
  using div_lower [of 4 "y - 1969", simplified] div_upper [of 4 "y - 1969", simplified] div_lower [of 100 "y - 1901", simplified] div_upper [of 100 "y - 1901", simplified]
    div_lower [of 400 "y - 1601", simplified] div_upper [of 400 "y - 1601", simplified]
  by (simp add: algebra_simps)

lemma guess_low: "DayFromYear (1970 + (400 * d) div 146097 - 1) \<le> d"
  using DayFromYear_upper [of "1970 + (400 * d) div 146097 - 1"]
    div_lower [of 146097 "400 * d", simplified] div_upper [of 146097 "400 * d", simplified]
  by (simp add: algebra_simps)

lemma guess_high: "d < DayFromYear (1970 + (400 * d) div 146097 + 2)"
  using DayFromYear_lower [of "1970 + (400 * d) div 146097 + 2"]
    div_lower [of 146097 "400 * d", simplified] div_upper [of 146097 "400 * d", simplified]
  by (simp add: algebra_simps)

lemma DayFromYear_mono: "y1 \<le> y2 \<Longrightarrow> DayFromYear y1 \<le> DayFromYear y2"
proof (cases "y1 = y2")
  case False
  assume "y1 \<le> y2"
  with False have "y1 + 1 \<le> y2" by simp
  then show ?thesis
    using DayFromYear_upper [of y1] DayFromYear_lower [of y2] by (simp add: algebra_simps)
qed simp

lemma div_step:
  fixes a c :: int
  assumes "1 < c"
  shows "(a + 1) div c = a div c + (if (a + 1) mod c = 0 then 1 else 0)"
proof -
  have m: "0 \<le> a mod c" "a mod c < c" using assms by simp_all
  have d: "(a + 1) div c = a div c + (a mod c + 1) div c"
    using assms
    by (metis (no_types, lifting) add.commute add_0 div_add1_eq mod_eq_self_iff_div_eq_0
        zero_le_one zmod_trivial_iff)
  have r: "(a + 1) mod c = (a mod c + 1) mod c"
    by (metis mod_add_left_eq)
  have "(a mod c + 1) div c = (if a mod c + 1 = c then 1 else 0) \<and>
        ((a mod c + 1) mod c = 0 \<longleftrightarrow> a mod c + 1 = c)"
    using m by auto
  then show ?thesis using d r by simp
qed

lemma DayFromYear_Suc: "DayFromYear (y + 1) = DayFromYear y + DaysInYear y"
proof -
  have s4: "(y - 1968) mod 4 = y mod 4" by presburger
  have s100: "(y - 1900) mod 100 = y mod 100" by algebra
  have s400: "(y - 1600) mod 400 = y mod 400" by algebra
  have a: "(y + 1 - 1969) div 4 = (y - 1969) div 4 + (if y mod 4 = 0 then 1 else 0)"
    using div_step [of 4 "y - 1969"] s4 by (simp add: algebra_simps)
  have b: "(y + 1 - 1901) div 100 = (y - 1901) div 100 + (if y mod 100 = 0 then 1 else 0)"
    using div_step [of 100 "y - 1901"] s100 by (simp add: algebra_simps)
  have c: "(y + 1 - 1601) div 400 = (y - 1601) div 400 + (if y mod 400 = 0 then 1 else 0)"
    using div_step [of 400 "y - 1601"] s400 by (simp add: algebra_simps)
  have d: "y mod 400 = 0 \<Longrightarrow> y mod 100 = 0" "y mod 100 = 0 \<Longrightarrow> y mod 4 = 0" by presburger+
  show ?thesis
    unfolding DayFromYear_def DaysInYear_def a b c using d by auto
qed

lemma YearFromTime_spec:
  "DayFromYear (YearFromTime t) \<le> Day t \<and> Day t < DayFromYear (YearFromTime t + 1)"
  using guess_low [of "Day t"] guess_high [of "Day t"]
  by (simp add: YearFromTime_def Let_def)

lemma YearFromTime_largest: "(DayFromYear y \<le> Day t) = (y \<le> YearFromTime t)"
proof
  assume a: "DayFromYear y \<le> Day t"
  show "y \<le> YearFromTime t"
  proof (rule ccontr)
    assume "\<not> y \<le> YearFromTime t"
    then have "YearFromTime t + 1 \<le> y" by simp
    from DayFromYear_mono [OF this] YearFromTime_spec [of t] a show False by linarith
  qed
next
  assume "y \<le> YearFromTime t"
  from DayFromYear_mono [OF this] YearFromTime_spec [of t] show "DayFromYear y \<le> Day t" by linarith
qed

lemma DayWithinYear_bounds:
  "0 \<le> DayWithinYear t \<and> DayWithinYear t < 365 + InLeapYear t"
  using YearFromTime_spec [of t] DayFromYear_Suc [of "YearFromTime t"]
  by (auto simp add: DayWithinYear_def InLeapYear_def DaysInYear_def split: if_splits)

lemma InLeapYear_cases: "InLeapYear t = 0 \<or> InLeapYear t = 1"
  by (simp add: InLeapYear_def)

lemma MonthFromTime_bounds: "0 \<le> MonthFromTime t \<and> MonthFromTime t \<le> 11"
  by (simp add: MonthFromTime_def Let_def)

lemma DateFromTime_bounds: "1 \<le> DateFromTime t \<and> DateFromTime t \<le> 31"
  using DayWithinYear_bounds [of t] InLeapYear_cases [of t]
  by (auto simp add: DateFromTime_def MonthFromTime_def Let_def split: if_splits)

lemma YearFromTime_range:
  assumes "- 8640000000000000 \<le> t" and "t \<le> 8640000000000000"
  shows "- 999999 \<le> YearFromTime t \<and> YearFromTime t \<le> 999999"
proof -
  have d: "- 100000000 \<le> Day t" "Day t \<le> 100000000"
    using assms div_lower [of 86400000 t, simplified] div_upper [of 86400000 t, simplified]
    by (simp_all add: Day_def)
  show ?thesis
    using d YearFromTime_spec [of t] DayFromYear_lower [of "YearFromTime t"]
      DayFromYear_upper [of "YearFromTime t + 1"]
    by (simp add: algebra_simps)
qed

lemma digit_char_is_digit: "is_digit (digit_char d)"
proof -
  have "\<forall>i<10. is_digit (''0123456789'' ! i)"
    by (simp add: eval_nat_numeral All_less_Suc is_digit_def)
  moreover have "d mod 10 < 10" by simp
  ultimately show ?thesis unfolding digit_char_def by blast
qed

lemma show_nat_digits: "list_all is_digit (show_nat n)"
proof (induction n rule: show_nat.induct)
  case (1 n)
  then show ?case by (subst show_nat.simps) (simp add: digit_char_is_digit)
qed

lemma show_nat_length: "0 < k \<Longrightarrow> n < 10 ^ k \<Longrightarrow> length (show_nat n) \<le> k"
proof (induction n arbitrary: k rule: show_nat.induct)
  case (1 n)
  show ?case
  proof (cases "n < 10")
    case True
    then show ?thesis using "1.prems" by (subst show_nat.simps) simp
  next
    case False
    obtain j where k: "k = Suc j" using "1.prems"(1) by (cases k) auto
    have "j \<noteq> 0" using False "1.prems"(2) k by (cases j) auto
    then have j: "0 < j" by simp
    have "n div 10 < 10 ^ j" using "1.prems"(2) k by (simp add: less_mult_imp_div_less mult.commute)
    from "1.IH" [OF False j this] show ?thesis using False k by (subst show_nat.simps) simp
  qed
qed

lemma pad_start_block:
  assumes "0 < k" and "n < 10 ^ k"
  shows "length (pad_start k (show_nat n)) = k \<and> list_all is_digit (pad_start k (show_nat n))"
proof -
  have z: "is_digit CHR ''0''" by (simp add: is_digit_def)
  show ?thesis
    using show_nat_length [OF assms] show_nat_digits [of n] z
    by (auto simp add: pad_start_def list_all_iff)
qed

lemma digits_mask:
  "length s = k \<and> list_all is_digit s \<Longrightarrow> matches_mask (replicate k CHR ''d'') s"
  by (auto simp add: matches_mask_def list_all2_conv_all_nth list_all_length)

lemma mask_append:
  "matches_mask p1 s1 \<Longrightarrow> matches_mask p2 s2 \<Longrightarrow> matches_mask (p1 @ p2) (s1 @ s2)"
  by (simp add: matches_mask_def list_all2_appendI)

lemma mask_literal: "CHR ''d'' \<notin> set p \<Longrightarrow> matches_mask p p"
  by (induction p) (auto simp add: matches_mask_def)

lemma digits_block:
  fixes x :: int
  assumes "0 < k" and "0 \<le> x" and "x < 10 ^ k"
  shows "matches_mask (replicate k CHR ''d'') (pad_start k (show_nat (nat x)))"
proof -
  have "nat x < nat (10 ^ k)" using assms(2,3) by linarith
  then have "nat x < 10 ^ k" by (simp add: nat_power_eq)
  from pad_start_block [OF assms(1) this] show ?thesis by (rule digits_mask)
qed

lemma date_time_mask:
  "matches_mask ''-dd-ddTdd:dd:dd.dddZ''
     (''-'' @ pad_start 2 (show_nat (nat (MonthFromTime t + 1))) @ ''-'' @
      pad_start 2 (show_nat (nat (DateFromTime t))) @ ''T'' @
      pad_start 2 (show_nat (nat (HourFromTime t))) @ '':'' @
      pad_start 2 (show_nat (nat (MinFromTime t))) @ '':'' @
      pad_start 2 (show_nat (nat (SecFromTime t))) @ ''.'' @
      pad_start 3 (show_nat (nat (msFromTime t))) @ ''Z'')"
proof -
  have m: "0 \<le> MonthFromTime t + 1" "MonthFromTime t + 1 < 10 ^ 2"
    using MonthFromTime_bounds [of t] by simp_all
  have d: "0 \<le> DateFromTime t" "DateFromTime t < 10 ^ 2"
    using DateFromTime_bounds [of t] by simp_all
  have mo: "matches_mask (replicate 2 CHR ''d'') (pad_start 2 (show_nat (nat (MonthFromTime t + 1))))"
    using m by (intro digits_block) simp_all
  have da: "matches_mask (replicate 2 CHR ''d'') (pad_start 2 (show_nat (nat (DateFromTime t))))"
    using d by (intro digits_block) simp_all
  have ho: "matches_mask (replicate 2 CHR ''d'') (pad_start 2 (show_nat (nat (HourFromTime t))))"
    by (intro digits_block) (simp_all add: HourFromTime_def)
  have mi: "matches_mask (replicate 2 CHR ''d'') (pad_start 2 (show_nat (nat (MinFromTime t))))"
    by (intro digits_block) (simp_all add: MinFromTime_def)
  have se: "matches_mask (replicate 2 CHR ''d'') (pad_start 2 (show_nat (nat (SecFromTime t))))"
    by (intro digits_block) (simp_all add: SecFromTime_def)
  have ms: "matches_mask (replicate 3 CHR ''d'') (pad_start 3 (show_nat (nat (msFromTime t))))"
    by (intro digits_block) (simp_all add: msFromTime_def)
  have "matches_mask
      (''-'' @ replicate 2 CHR ''d'' @ ''-'' @ replicate 2 CHR ''d'' @ ''T'' @
       replicate 2 CHR ''d'' @ '':'' @ replicate 2 CHR ''d'' @ '':'' @ replicate 2 CHR ''d'' @ ''.'' @
       replicate 3 CHR ''d'' @ ''Z'')
      (''-'' @ pad_start 2 (show_nat (nat (MonthFromTime t + 1))) @ ''-'' @
       pad_start 2 (show_nat (nat (DateFromTime t))) @ ''T'' @
       pad_start 2 (show_nat (nat (HourFromTime t))) @ '':'' @
       pad_start 2 (show_nat (nat (MinFromTime t))) @ '':'' @
       pad_start 2 (show_nat (nat (SecFromTime t))) @ ''.'' @
       pad_start 3 (show_nat (nat (msFromTime t))) @ ''Z'')"
    by (intro mask_append mo da ho mi se ms mask_literal) simp_all
  then show ?thesis by (simp add: eval_nat_numeral)
qed

lemma toISOString_shape:
  assumes "- 8640000000000000 \<le> t" and "t \<le> 8640000000000000"
  shows "iso_8601_utc (toISOString t)"
proof -
  let ?rest = "''-'' @ pad_start 2 (show_nat (nat (MonthFromTime t + 1))) @ ''-'' @
      pad_start 2 (show_nat (nat (DateFromTime t))) @ ''T'' @
      pad_start 2 (show_nat (nat (HourFromTime t))) @ '':'' @
      pad_start 2 (show_nat (nat (MinFromTime t))) @ '':'' @
      pad_start 2 (show_nat (nat (SecFromTime t))) @ ''.'' @
      pad_start 3 (show_nat (nat (msFromTime t))) @ ''Z''"
  let ?y = "YearFromTime t"
  have iso: "toISOString t = show_year ?y @ ?rest" by (simp add: toISOString_def)
  have "\<bar>?y\<bar> < 1000000" using YearFromTime_range [OF assms] by linarith
  then have range: "\<bar>?y\<bar> < 10 ^ 6" by simp
  consider (four) "0 \<le> ?y \<and> ?y \<le> 9999" | (neg) "?y < 0" | (pos) "9999 < ?y" by linarith
  then show ?thesis
  proof cases
    case four
    then have "?y < 10 ^ 4" by simp
    then have "matches_mask (replicate 4 CHR ''d'') (pad_start 4 (show_nat (nat ?y)))"
      using four by (intro digits_block) simp_all
    then have "matches_mask (replicate 4 CHR ''d'' @ ''-dd-ddTdd:dd:dd.dddZ'') (show_year ?y @ ?rest)"
      using four by (intro mask_append date_time_mask) (simp add: show_year_def)
    then show ?thesis by (simp add: iso iso_8601_utc_def eval_nat_numeral)
  next
    case neg
    have "matches_mask (replicate 6 CHR ''d'') (pad_start 6 (show_nat (nat \<bar>?y\<bar>)))"
      using range by (intro digits_block) simp_all
    then have "matches_mask (''-'' @ replicate 6 CHR ''d'') (''-'' @ pad_start 6 (show_nat (nat \<bar>?y\<bar>)))"
      by (intro mask_append mask_literal) simp_all
    then have "matches_mask (''-'' @ replicate 6 CHR ''d'') (show_year ?y)"
      using neg by (simp add: show_year_def)
    then have "matches_mask ((''-'' @ replicate 6 CHR ''d'') @ ''-dd-ddTdd:dd:dd.dddZ'') (show_year ?y @ ?rest)"
      by (intro mask_append date_time_mask)
    then show ?thesis by (simp add: iso iso_8601_utc_def eval_nat_numeral)
  next
    case pos
    have "matches_mask (replicate 6 CHR ''d'') (pad_start 6 (show_nat (nat \<bar>?y\<bar>)))"
      using range by (intro digits_block) simp_all
    then have "matches_mask (''+'' @ replicate 6 CHR ''d'') (''+'' @ pad_start 6 (show_nat (nat \<bar>?y\<bar>)))"
      by (intro mask_append mask_literal) simp_all
    then have "matches_mask (''+'' @ replicate 6 CHR ''d'') (show_year ?y)"
      using pos by (simp add: show_year_def)
    then have "matches_mask ((''+'' @ replicate 6 CHR ''d'') @ ''-dd-ddTdd:dd:dd.dddZ'') (show_year ?y @ ?rest)"
      by (intro mask_append date_time_mask)
    then show ?thesis by (simp add: iso iso_8601_utc_def eval_nat_numeral)
  qed
qed

subsection \<open>The payload\<close>

lemma toISOString_scenario: "toISOString 1700000000000 = ''2023-11-14T22:13:20.000Z''"
  by code_simp

text \<open>
  C1. For field values \<open>v\<close> that pass the schema and a clock reading \<open>now w\<close>, the payload
  is exactly the object below: the three field values in their places, the fixed
  strings, and \<^verbatim>\<open>sent_at\<close> the ISO string of the clock reading. The handler stores
  this payload with \<^verbatim>\<open>setSentPayload\<close>, posts it to the webhook URL, and the state the
  attempt leaves holds it in \<^verbatim>\<open>sentPayload\<close>, whatever the outcome of the call. The
  \<^verbatim>\<open>to\<close> field consists of digits only.
\<close>

theorem valid_submission_payload:
  assumes "formSchema v = Inr v"
  shows "build_payload v (now w) =
           JObj [(''messaging_product'', JStr ''whatsapp''),
                 (''from_phone_number_id'', JStr (phoneNumberId v)),
                 (''to'', JStr (recipientPhone v)),
                 (''type'', JStr ''template''),
                 (''template'',
                    JObj [(''name'', JStr (template v)),
                          (''language'', JObj [(''code'', JStr ''en_US'')])]),
                 (''debug'',
                    JObj [(''ui_origin'', JStr ''lovable-web-sender''),
                          (''sent_at'', JStr (toISOString (now w)))])] \<and>
         SetSentPayload (build_payload v (now w)) \<in> set (fst (handleSubmit w v)) \<and>
         FetchCall \<lparr>url = WEBHOOK_URL, http_method = ''POST'',
                    headers = [(''Content-Type'', ''application/json'')],
                    body = build_payload v (now w)\<rparr> \<in> set (fst (handleSubmit w v)) \<and>
         sentPayload (state_after s (handleSubmit w v)) = build_payload v (now w) \<and>
         list_all is_digit (recipientPhone v) \<and>
         (- 8640000000000000 \<le> now w \<and> now w \<le> 8640000000000000 \<longrightarrow>
            iso_8601_utc (toISOString (now w)))"
proof -
  have issues: "formSchema_issues v = []"
    using assms by (simp add: formSchema_def split: if_splits)
  then have h: "handleSubmit w v = onSubmit w v"
    by (simp add: handleSubmit_def formSchema_def)
  have stored: "SetSentPayload (build_payload v (now w)) \<in> set (fst (onSubmit w v))"
    by (rule onSubmit_cases [of w v]) (simp_all add: prologue_def)
  have final: "sentPayload (state_after s (onSubmit w v)) = build_payload v (now w)"
    by (rule onSubmit_cases [of w v]) (simp_all add: run_simps)
  have digits: "list_all is_digit (recipientPhone v)"
  proof -
    from issues have p: "prefix_55_then_10_to_11_digits (recipientPhone v)"
      by (simp add: formSchema_issues_empty)
    then have "list_all is_digit (take 2 (recipientPhone v) @ drop 2 (recipientPhone v))"
      unfolding prefix_55_then_10_to_11_digits_def by (simp add: is_digit_def)
    then show ?thesis by simp
  qed
  have iso: "- 8640000000000000 \<le> now w \<and> now w \<le> 8640000000000000 \<longrightarrow>
      iso_8601_utc (toISOString (now w))"
    using toISOString_shape [of "now w"] by blast
  show ?thesis
    using stored final digits iso onSubmit_fetches [of v w]
    by (simp add: h build_payload_def webhook_request_def)
qed

theorem valid_submission_payload_witness:
  "formSchema scenario_values = Inr scenario_values \<and>
   - 8640000000000000 \<le> now (mock_world (mock_response 200 (JObj [(''message'', JStr ''ok'')]))) \<and>
   now (mock_world (mock_response 200 (JObj [(''message'', JStr ''ok'')]))) \<le> 8640000000000000 \<and>
   iso_8601_utc ''2023-11-14T22:13:20.000Z'' \<and>
   sentPayload (state_after initial_state
     (handleSubmit (mock_world (mock_response 200 (JObj [(''message'', JStr ''ok'')]))) scenario_values)) =
     JObj [(''messaging_product'', JStr ''whatsapp''),
           (''from_phone_number_id'', JStr ''785310631336841''),
           (''to'', JStr ''5599999999999''),
           (''type'', JStr ''template''),
           (''template'',
              JObj [(''name'', JStr ''hello_world''),
                    (''language'', JObj [(''code'', JStr ''en_US'')])]),
           (''debug'',
              JObj [(''ui_origin'', JStr ''lovable-web-sender''),
                    (''sent_at'', JStr ''2023-11-14T22:13:20.000Z'')])]"
proof -
  let ?w = "mock_world (mock_response 200 (JObj [(''message'', JStr ''ok'')]))"
  have valid: "formSchema scenario_values = Inr scenario_values"
    by (simp add: formSchema_def scenario_values_valid)
  have now: "now ?w = 1700000000000" by (simp add: mock_world_def)
  show ?thesis
    using valid_submission_payload [OF valid, of ?w initial_state] valid
    by (simp add: now toISOString_scenario scenario_values_def)
qed

end
